theory Spec2Isabelle
  imports Main "HOL-Library.AList" "HOL-Library.Sublist"
begin

section \<open>JavaScript values\<close>

text \<open>
  The request body, the tool arguments and the request id are untyped (\<open>any\<close>) in the
  source. They are modelled by the values JSON can carry, plus \<open>undefined\<close>. A number is
  an integer here: the code below only tests numbers for truthiness, compares them with
  \<open>===\<close> and prints them. A string is the list of its characters, the characters
  outside ASCII of the source's literals as their UTF-8 bytes. An object is an association
  list read with \<open>map_of\<close>.
\<close>

datatype jsval =
    Undefined
  | Null
  | Bool bool
  | Num int
  | Str string
  | Arr "jsval list"
  | Obj "(string \<times> jsval) list"

text \<open>\<open>!v\<close> is \<open>\<not> truthy v\<close>.\<close>

fun truthy :: "jsval \<Rightarrow> bool" where
  "truthy Undefined = False"
| "truthy Null = False"
| "truthy (Bool b) = b"
| "truthy (Num n) = (n \<noteq> 0)"
| "truthy (Str s) = (s \<noteq> [])"
| "truthy (Arr xs) = True"
| "truthy (Obj kvs) = True"

text \<open>\<open>a || b\<close>\<close>

definition js_or :: "jsval \<Rightarrow> jsval \<Rightarrow> jsval" where
  "js_or a b = (if truthy a then a else b)"

text \<open>
  \<open>v.k\<close> for the keys the code reads (\<open>jsonrpc\<close>, \<open>id\<close>, \<open>method\<close>, \<open>params\<close>,
  \<open>name\<close>, \<open>arguments\<close>, \<open>userId\<close>): none of them is an index or \<open>length\<close>, so only
  an object can have them. Reading a property of \<open>undefined\<close> or \<open>null\<close> throws; the
  callers test for that case before they read.
\<close>

fun get_prop :: "jsval \<Rightarrow> string \<Rightarrow> jsval" where
  "get_prop (Obj kvs) k = (case map_of kvs k of Some v \<Rightarrow> v | None \<Rightarrow> Undefined)"
| "get_prop v k = Undefined"

text \<open>\<open>k in v\<close>, for the same keys, on an object or an array.\<close>

fun has_key :: "string \<Rightarrow> jsval \<Rightarrow> bool" where
  "has_key k (Obj kvs) = (map_of kvs k \<noteq> None)"
| "has_key k v = False"

text \<open>The \<open>in\<close> operator throws a TypeError on anything that is not an object.\<close>

fun is_object :: "jsval \<Rightarrow> bool" where
  "is_object (Obj kvs) = True"
| "is_object (Arr xs) = True"
| "is_object v = False"

subsection \<open>Printing\<close>

definition digit_char :: "nat \<Rightarrow> char" where
  "digit_char d = char_of (48 + d)"

function show_nat :: "nat \<Rightarrow> string" where
  "show_nat n = (if n < 10 then [digit_char n] else show_nat (n div 10) @ [digit_char (n mod 10)])"
  by pat_completeness auto
termination
  by (relation "measure id") auto

definition show_int :: "int \<Rightarrow> string" where
  "show_int i = (if i < 0 then CHR ''-'' # show_nat (nat (- i)) else show_nat (nat i))"

fun intercalate :: "string \<Rightarrow> string list \<Rightarrow> string" where
  "intercalate sep [] = []"
| "intercalate sep [s] = s"
| "intercalate sep (s # t # ss) = s @ sep @ intercalate sep (t # ss)"

text \<open>
  \<open>`${v}`\<close>, which is also the property key \<open>v\<close> is turned into by \<open>o[v]\<close>. An array prints
  its elements joined by commas, \<open>null\<close> and \<open>undefined\<close> elements as the empty string. A
  number prints all its digits; JavaScript prints a number of magnitude \<open>1e21\<close> or more in
  exponent form, which is not modelled.
\<close>

fun js_to_string :: "jsval \<Rightarrow> string" where
  "js_to_string Undefined = ''undefined''"
| "js_to_string Null = ''null''"
| "js_to_string (Bool b) = (if b then ''true'' else ''false'')"
| "js_to_string (Num n) = show_int n"
| "js_to_string (Str s) = s"
| "js_to_string (Arr xs) =
     intercalate '','' (map (\<lambda>x. if x = Null \<or> x = Undefined then [] else js_to_string x) xs)"
| "js_to_string (Obj kvs) = ''[object Object]''"

text \<open>
  The own enumerable properties \<open>{...v}\<close> copies: those of an object, the indices of an
  array or of a string, nothing for the other values.
\<close>

fun own_entries :: "jsval \<Rightarrow> (string \<times> jsval) list" where
  "own_entries (Obj kvs) = kvs"
| "own_entries (Arr xs) = zip (map show_nat [0..<length xs]) xs"
| "own_entries (Str s) = zip (map show_nat [0..<length s]) (map (\<lambda>c. Str [c]) s)"
| "own_entries v = []"


section \<open>Subscriptions and the tool registry\<close>

text \<open>
  A row of the table \<open>UserTool\<close> of \<open>prisma/schema.prisma\<close> (the spec's ToolSubscription),
  with the fields the code reads. The fields are \<open>userId\<close>, \<open>toolId\<close> and \<open>authorized\<close>
  in the schema; they carry a prefix here because \<open>AccessKey\<close> has fields of the same
  names.
\<close>

record userTool =
  ut_userId :: string
  ut_toolId :: string
  ut_authorized :: bool

text \<open>A tool descriptor (\<open>Tool\<close> of the MCP SDK, as \<open>getUserTools.ts\<close> declares it).\<close>

record Tool =
  name :: string
  description :: string
  inputSchema :: jsval

text \<open>
  The result every tool returns: \<open>{content: [{type: "text", text}], isError?}\<close>. The code
  never writes \<open>isError: false\<close>; \<open>isError = False\<close> stands for the absent field.
\<close>

datatype tool_result = ToolResult (content_text: string) (isError: bool)

text \<open>
  A handler of the registry, \<open>(args: any, userId?: string) => Promise<any>\<close>: it takes the
  tool arguments and the user id, may read and change the world (the database, a
  provider) and either returns a result or throws an error with a message (\<open>Inl\<close>).
\<close>

type_synonym 'w handler = "jsval \<Rightarrow> jsval \<Rightarrow> 'w \<Rightarrow> (string + tool_result) \<times> 'w"

text \<open>
  One call of a handler: the registry key it was found under, and the two arguments it
  was applied to.
\<close>

type_synonym invocation = "string \<times> jsval \<times> jsval"

definition cross_mark :: string where
  "cross_mark = [CHR 0xE2, CHR 0x9D, CHR 0x8C]"

definition check_mark :: string where
  "check_mark = [CHR 0xE2, CHR 0x9C, CHR 0x85]"

definition dquote :: string where
  "dquote = [CHR 0x22]"

text \<open>
  \<open>prisma.userTool.findMany({where: {userId}, select: {toolId: true}})\<close>. Prisma reads an
  \<open>undefined\<close> filter value as no filter, and rejects \<open>null\<close>, a boolean, a number or
  an array; its error text is abbreviated to its first line. An object would be read as a
  filter expression, which is not modelled: the third equation is exact only for the
  other values. The dispatchers pass a string or \<open>undefined\<close>.
\<close>

fun findMany_userTool :: "userTool list \<Rightarrow> jsval \<Rightarrow> string + userTool list" where
  "findMany_userTool rows (Str u) = Inr (filter (\<lambda>r. ut_userId r = u) rows)"
| "findMany_userTool rows Undefined = Inr rows"
| "findMany_userTool rows v = Inl ''Invalid `prisma.userTool.findMany()` invocation''"

text \<open>\<open>allowedTools.includes(v)\<close> on an array of strings.\<close>

definition js_includes :: "string list \<Rightarrow> jsval \<Rightarrow> bool" where
  "js_includes xs v = (case v of Str s \<Rightarrow> s \<in> set xs | _ \<Rightarrow> False)"

text \<open>
  \<open>getToolsForUser\<close> (getUserTools.ts): the registered tools whose name is the
  \<open>toolId\<close> of one of the user's rows.
\<close>

definition getToolsForUser :: "userTool list \<Rightarrow> jsval \<Rightarrow> Tool list \<Rightarrow> string + Tool list" where
  "getToolsForUser userTools userId allTools =
     (case findMany_userTool userTools userId of
        Inl e \<Rightarrow> Inl e
      | Inr userToolEntries \<Rightarrow>
          let subscribedToolIds = map ut_toolId userToolEntries
          in Inr (filter (\<lambda>tool. name tool \<in> set subscribedToolIds) allTools))"

text \<open>
  \<open>handleToolCall\<close> (handleToolCall.ts). \<open>toolHandlers\<close> is the registry
  \<open>Record<string, handler>\<close> filled by \<open>loadAllTools\<close>, read as a map from the registered
  names (the properties a plain object inherits, such as \<open>constructor\<close>, are not
  modelled). The result is what the function returns or throws, the world after it, and
  the handler calls it made.
\<close>

definition handleToolCall ::
  "userTool list \<Rightarrow> (string \<rightharpoonup> 'w handler) \<Rightarrow> jsval \<Rightarrow> jsval \<Rightarrow> 'w
     \<Rightarrow> (string + tool_result) \<times> 'w \<times> invocation list" where
  "handleToolCall userTools toolHandlers nm args w =
     (if \<not> truthy args then
        (Inr (ToolResult (''No arguments provided for tool: '' @ js_to_string nm) True), w, [])
      else
        let userId = get_prop args ''userId'';
            toolArgs = Obj (AList.delete ''userId'' (own_entries args))
        in case findMany_userTool userTools userId of
             Inl e \<Rightarrow> (Inl e, w, [])
           | Inr rows \<Rightarrow>
               let allowedTools = map ut_toolId rows
               in if \<not> js_includes allowedTools nm then
                    (Inr (ToolResult (cross_mark @ '' Access denied. Tool '' @ dquote
                            @ js_to_string nm @ dquote @ '' is not subscribed for this user.'') True),
                     w, [])
                  else
                    (case toolHandlers (js_to_string nm) of
                       None \<Rightarrow>
                         (Inr (ToolResult (cross_mark @ '' Tool '' @ dquote @ js_to_string nm
                                 @ dquote @ '' is not implemented.'') True),
                          w, [])
                     | Some handler \<Rightarrow>
                         (case handler toolArgs userId w of
                            (r, w') \<Rightarrow> (r, w', [(js_to_string nm, toolArgs, userId)]))))"

section \<open>The JSON-RPC dispatcher\<close>

text \<open>
  What a route writes to \<open>res\<close>: \<open>res.status(n).json({jsonrpc: "2.0", result, id})\<close>,
  \<open>res.status(n).json({jsonrpc: "2.0", error: {code, message}, id})\<close>, or
  \<open>res.status(n).send()\<close> with no body. \<open>res.json\<close> alone has status 200.
\<close>

datatype payload =
    Static jsval
  | ToolList "Tool list"
  | ToolCall tool_result

datatype rpc_body =
    RpcResult (result_payload: payload) (result_id: jsval)
  | RpcError (error_code: int) (error_message: string) (error_id: jsval)

datatype http_response =
    Json (http_status: nat) (http_body: rpc_body)
  | NoBody (http_status: nat)

text \<open>
  \<open>req.query.userId as string\<close>: the query parameter, absent (\<open>None\<close>, the value
  \<open>undefined\<close>) or a string.
\<close>

definition js_of_userId :: "string option \<Rightarrow> jsval" where
  "js_of_userId userId = (case userId of None \<Rightarrow> Undefined | Some u \<Rightarrow> Str u)"

text \<open>\<open>{ ...args, userId }\<close>\<close>

definition argsWithUser :: "jsval \<Rightarrow> string option \<Rightarrow> jsval" where
  "argsWithUser args userId = Obj (AList.update ''userId'' (js_of_userId userId) (own_entries args))"

subsection \<open>src/routes.ts\<close>

definition initialize_result :: jsval where
  "initialize_result =
     Obj [(''protocolVersion'', Str ''2024-11-05''),
          (''capabilities'', Obj [(''tools'', Obj [])]),
          (''serverInfo'', Obj [(''name'', Str ''example-server''), (''version'', Str ''1.0.0'')])]"

text \<open>
  The \<open>switch (request.method)\<close> of \<open>router.post("/mcp")\<close>: the \<open>result\<close> it assigns, or
  the message of the error it throws (\<open>Inl\<close>).
\<close>

definition dispatch ::
  "userTool list \<Rightarrow> Tool list \<Rightarrow> (string \<rightharpoonup> 'w handler) \<Rightarrow> string option \<Rightarrow> jsval \<Rightarrow> 'w
     \<Rightarrow> (string + payload) \<times> 'w \<times> invocation list" where
  "dispatch userTools tools toolHandlers userId request w =
     (let method = get_prop request ''method'' in
      if method = Str ''initialize'' then (Inr (Static initialize_result), w, [])
      else if method = Str ''tools/list'' then
        (case getToolsForUser userTools (js_of_userId userId) tools of
           Inl e \<Rightarrow> (Inl e, w, [])
         | Inr filteredTools \<Rightarrow> (Inr (ToolList filteredTools), w, []))
      else if method = Str ''tools/call'' then
        (if \<not> truthy (get_prop request ''params'') then
           (Inl ''Missing parameters for tools/call'', w, [])
         else
           let nm = get_prop (get_prop request ''params'') ''name'';
               args = get_prop (get_prop request ''params'') ''arguments''
           in case handleToolCall userTools toolHandlers nm (argsWithUser args userId) w of
                (Inl e, w', calls) \<Rightarrow> (Inl e, w', calls)
              | (Inr r, w', calls) \<Rightarrow> (Inr (ToolCall r), w', calls))
      else (Inl (''Method not found: '' @ js_to_string method), w, []))"

text \<open>
  \<open>router.post("/mcp", ...)\<close> of src/routes.ts. Reading \<open>message.jsonrpc\<close> of a body that
  is \<open>undefined\<close> or \<open>null\<close> throws, and the outer \<open>catch\<close> answers -32700.
\<close>

definition post_mcp ::
  "userTool list \<Rightarrow> Tool list \<Rightarrow> (string \<rightharpoonup> 'w handler) \<Rightarrow> string option \<Rightarrow> jsval \<Rightarrow> 'w
     \<Rightarrow> http_response \<times> 'w \<times> invocation list" where
  "post_mcp userTools tools toolHandlers userId message w =
     (if message = Undefined \<or> message = Null then
        (Json 400 (RpcError (- 32700) ''Parse error'' Null), w, [])
      else if \<not> truthy (get_prop message ''jsonrpc'') \<or> get_prop message ''jsonrpc'' \<noteq> Str ''2.0'' then
        (Json 400 (RpcError (- 32600) ''Invalid Request - missing or invalid jsonrpc field''
                     (js_or (get_prop message ''id'') Null)), w, [])
      else if has_key ''method'' message \<and> has_key ''id'' message then
        (case dispatch userTools tools toolHandlers userId message w of
           (Inr r, w', calls) \<Rightarrow> (Json 200 (RpcResult r (get_prop message ''id'')), w', calls)
         | (Inl e, w', calls) \<Rightarrow>
             (Json 500 (RpcError (- 32603) e (get_prop message ''id'')), w', calls))
      else if has_key ''method'' message \<and> \<not> has_key ''id'' message then
        (NoBody 204, w, [])
      else
        (Json 400 (RpcError (- 32600) ''Invalid Request - missing method''
                     (js_or (get_prop message ''id'') Null)), w, []))"

subsection \<open>The later routes file (unnamed/part_001)\<close>

definition initialize_result_part_001 :: jsval where
  "initialize_result_part_001 =
     Obj [(''protocolVersion'', Str ''2024-11-05''),
          (''capabilities'', Obj [(''tools'', Obj []), (''resources'', Obj []), (''prompts'', Obj [])]),
          (''serverInfo'', Obj [(''name'', Str ''example-server''), (''version'', Str ''1.0.0'')])]"

definition dispatch_part_001 ::
  "userTool list \<Rightarrow> Tool list \<Rightarrow> (string \<rightharpoonup> 'w handler) \<Rightarrow> string option \<Rightarrow> jsval \<Rightarrow> 'w
     \<Rightarrow> (string + payload) \<times> 'w \<times> invocation list" where
  "dispatch_part_001 userTools tools toolHandlers userId request w =
     (let method = get_prop request ''method'' in
      if method = Str ''initialize'' then (Inr (Static initialize_result_part_001), w, [])
      else if method = Str ''tools/list'' then
        (case getToolsForUser userTools (js_of_userId userId) tools of
           Inl e \<Rightarrow> (Inl (''Failed to get tools for user: '' @ e), w, [])
         | Inr filteredTools \<Rightarrow> (Inr (ToolList filteredTools), w, []))
      else if method = Str ''tools/call'' then
        (if \<not> truthy (get_prop request ''params'') then
           (Inl ''Missing parameters for tools/call'', w, [])
         else
           let nm = get_prop (get_prop request ''params'') ''name'';
               args = get_prop (get_prop request ''params'') ''arguments''
           in if \<not> truthy nm then (Inl ''Missing tool name in tools/call'', w, [])
              else
                case handleToolCall userTools toolHandlers nm (argsWithUser args userId) w of
                  (Inl e, w', calls) \<Rightarrow> (Inl (''Tool execution failed: '' @ e), w', calls)
                | (Inr r, w', calls) \<Rightarrow> (Inr (ToolCall r), w', calls))
      else if method = Str ''resources/list'' then
        (Inr (Static (Obj [(''resources'', Arr [])])), w, [])
      else if method = Str ''prompts/list'' then
        (Inr (Static (Obj [(''prompts'', Arr [])])), w, [])
      else (Inl (''Method not found: '' @ js_to_string method), w, []))"

text \<open>
  \<open>router.post("/mcp", ...)\<close> of unnamed/part_001. It has no test of \<open>jsonrpc\<close>; it
  tests \<open>userId\<close> first. \<open>'method' in message\<close> throws on a body that is not an object,
  and the outer \<open>catch\<close> answers -32700. The notification branch only logs before it
  answers.
\<close>

definition post_mcp_part_001 ::
  "userTool list \<Rightarrow> Tool list \<Rightarrow> (string \<rightharpoonup> 'w handler) \<Rightarrow> string option \<Rightarrow> jsval \<Rightarrow> 'w
     \<Rightarrow> http_response \<times> 'w \<times> invocation list" where
  "post_mcp_part_001 userTools tools toolHandlers userId message w =
     (if \<not> truthy (js_of_userId userId) then
        (Json 400 (RpcError (- 32602) ''Missing required userId parameter''
                     (js_or (get_prop message ''id'') Null)), w, [])
      else if \<not> is_object message then
        (Json 400 (RpcError (- 32700) ''Parse error or invalid request'' Null), w, [])
      else if has_key ''method'' message \<and> has_key ''id'' message then
        (case dispatch_part_001 userTools tools toolHandlers userId message w of
           (Inr r, w', calls) \<Rightarrow> (Json 200 (RpcResult r (get_prop message ''id'')), w', calls)
         | (Inl e, w', calls) \<Rightarrow>
             (Json 500 (RpcError (- 32603) e (get_prop message ''id'')), w', calls))
      else if has_key ''method'' message \<and> \<not> has_key ''id'' message then
        (NoBody 204, w, [])
      else
        (Json 400 (RpcError (- 32600) ''Invalid Request - missing method''
                     (js_or (get_prop message ''id'') Null)), w, []))"


section \<open>Credentials and the token lifecycle\<close>

text \<open>
  A row of the table \<open>AccessKey\<close> (the spec's Credential). Times are milliseconds since
  the epoch. The key fields carry a prefix, see \<open>userTool\<close>.
\<close>

record accessKey =
  ak_userId :: string
  ak_toolId :: string
  accessToken :: string
  refreshToken :: "string option"
  expiryDate :: int

text \<open>\<open>prisma.accessKey.findUnique({where: {userId_toolId: {userId, toolId}}})\<close>\<close>

definition findUnique_accessKey :: "accessKey list \<Rightarrow> string \<Rightarrow> string \<Rightarrow> accessKey option" where
  "findUnique_accessKey rows u t = find (\<lambda>r. ak_userId r = u \<and> ak_toolId r = t) rows"

text \<open>
  \<open>prisma.accessKey.update({where: {userId_toolId: {userId, toolId}}, data})\<close>: \<open>f\<close> writes
  the fields of \<open>data\<close>. The call throws when there is no such row (\<open>None\<close>).
\<close>

fun update_accessKey ::
  "accessKey list \<Rightarrow> string \<Rightarrow> string \<Rightarrow> (accessKey \<Rightarrow> accessKey) \<Rightarrow> accessKey list option" where
  "update_accessKey [] u t f = None"
| "update_accessKey (r # rs) u t f =
     (if ak_userId r = u \<and> ak_toolId r = t then Some (f r # rs)
      else map_option ((#) r) (update_accessKey rs u t f))"

definition record_not_found :: string where
  "record_not_found = ''Record to update not found.''"

text \<open>
  The provider is a collaborator: what it answers is a parameter. A refresh answers
  credentials, whose \<open>access_token\<close> and \<open>refresh_token\<close> may be missing, or throws an
  error with a message; an API call (Gmail send, Calendar insert) answers data, or throws
  an error with a \<open>code\<close> and a \<open>message\<close>.
\<close>

datatype refresh_outcome =
    RefreshOk (access_token: "string option") (refresh_token: "string option")
  | RefreshErr string

datatype call_outcome =
    CallOk string
  | CallErr jsval string

text \<open>The calls a handler makes to the provider, in order.\<close>

datatype provider_event =
    RefreshAccessToken
  | ProviderCall string

fun is_call :: "provider_event \<Rightarrow> bool" where
  "is_call (ProviderCall tok) = True"
| "is_call RefreshAccessToken = False"

text \<open>
  What a handler runs against: the environment variables (\<open>configured\<close>: the three Google
  OAuth variables are set), the clock (\<open>now\<close>: \<open>Date.now()\<close> in \<open>shouldRefreshToken\<close>;
  \<open>refresh_time n\<close>: \<open>Date.now()\<close> in the refresh number \<open>n\<close>), the provider's answer to
  the refresh number \<open>n\<close> and to the API call number \<open>n\<close> made with a given access token,
  and \<open>new Date(s).getTime()\<close> (\<open>None\<close>: NaN).
\<close>

record env =
  configured :: bool
  now :: int
  refresh_time :: "nat \<Rightarrow> int"
  refresh_reply :: "nat \<Rightarrow> refresh_outcome"
  call_reply :: "nat \<Rightarrow> string \<Rightarrow> call_outcome"
  date_of :: "string \<Rightarrow> int option"

text \<open>The state of one run of a handler: the table, and the provider calls made so far.\<close>

record run =
  accessKeys :: "accessKey list"
  events :: "provider_event list"

text \<open>A token that is not \<open>undefined\<close>, \<open>null\<close> or the empty string.\<close>

fun present :: "string option \<Rightarrow> bool" where
  "present None = False"
| "present (Some s) = (s \<noteq> [])"

text \<open>\<open>s.includes(sub)\<close>\<close>

fun str_includes :: "string \<Rightarrow> string \<Rightarrow> bool" where
  "str_includes [] sub = (sub = [])"
| "str_includes (c # cs) sub = (prefix sub (c # cs) \<or> str_includes cs sub)"

text \<open>The API call of a handler (\<open>sendEmail\<close>, \<open>calendar.events.insert\<close>).\<close>

definition provider_call :: "env \<Rightarrow> string \<Rightarrow> run \<Rightarrow> call_outcome \<times> run" where
  "provider_call e tok st =
     (call_reply e (length (filter is_call (events st))) tok,
      st\<lparr>events := events st @ [ProviderCall tok]\<rparr>)"

subsection \<open>The Gmail handler with a token lifecycle (second file of src/routes.ts)\<close>

text \<open>\<open>shouldRefreshToken(expiryDate?: Date)\<close>\<close>

definition shouldRefreshToken :: "int \<Rightarrow> int option \<Rightarrow> bool" where
  "shouldRefreshToken current expiry =
     (case expiry of
        None \<Rightarrow> True
      | Some d \<Rightarrow> let fiveMinutesFromNow = current + 5 * 60 * 1000 in d \<le> fiveMinutesFromNow)"

text \<open>
  \<open>refreshAccessToken(oauth2Client, userId, refreshToken)\<close>: the new access token, or the
  message of the error it throws (\<open>Inl\<close>).
\<close>

definition refreshAccessToken :: "env \<Rightarrow> string \<Rightarrow> string \<Rightarrow> run \<Rightarrow> (string + string) \<times> run" where
  "refreshAccessToken e userId oldRefreshToken st =
     (let n = length (filter (\<lambda>ev. \<not> is_call ev) (events st));
          st1 = st\<lparr>events := events st @ [RefreshAccessToken]\<rparr>
      in case refresh_reply e n of
           RefreshErr m \<Rightarrow> (Inl (''Token refresh failed: '' @ m), st1)
         | RefreshOk newAccessToken newRefreshToken \<Rightarrow>
             if \<not> present newAccessToken then
               (Inl (''Token refresh failed: '' @ ''No access token received from refresh''), st1)
             else
               (case update_accessKey (accessKeys st1) userId ''GMAIL_SENDER''
                       (\<lambda>r. r\<lparr>accessToken := the newAccessToken,
                               refreshToken := (if present newRefreshToken then newRefreshToken
                                                else Some oldRefreshToken),
                               expiryDate := refresh_time e n + 3600 * 1000\<rparr>) of
                  None \<Rightarrow> (Inl (''Token refresh failed: '' @ record_not_found), st1)
                | Some rows \<Rightarrow> (Inr (the newAccessToken), st1\<lparr>accessKeys := rows\<rparr>)))"

text \<open>The arguments of the tool, as its \<open>inputSchema\<close> types them; a missing one is empty.\<close>

record mail =
  toMail :: string
  subject :: string
  body :: string

definition isAuthError :: "jsval \<Rightarrow> string \<Rightarrow> bool" where
  "isAuthError c m =
     (c = Num 401 \<or> c = Num 403 \<or>
      (m \<noteq> [] \<and> (str_includes m ''invalid_client'' \<or> str_includes m ''invalid_grant''
                  \<or> str_includes m ''unauthorized'' \<or> str_includes m ''forbidden'')))"

text \<open>
  The last \<open>try\<close> of the handler: send with \<open>tok\<close>; on an authentication error refresh and
  send again.
\<close>

definition send_with_retry :: "env \<Rightarrow> mail \<Rightarrow> string \<Rightarrow> string \<Rightarrow> string \<Rightarrow> run \<Rightarrow> tool_result \<times> run" where
  "send_with_retry e args userId oldRefreshToken tok st =
     (case provider_call e tok st of
        (CallOk msgId, st1) \<Rightarrow>
          (ToolResult (check_mark @ '' Email sent to '' @ toMail args @ ''. Gmail Message ID: '' @ msgId) False,
           st1)
      | (CallErr c m, st1) \<Rightarrow>
          if isAuthError c m \<and> oldRefreshToken \<noteq> [] then
            (case refreshAccessToken e userId oldRefreshToken st1 of
               (Inl refreshError, st2) \<Rightarrow>
                 (ToolResult (cross_mark @ '' Authentication failed and token refresh unsuccessful: ''
                                @ refreshError @ ''. Please re-authenticate Gmail.'') True, st2)
             | (Inr newAccessToken, st2) \<Rightarrow>
                 (case provider_call e newAccessToken st2 of
                    (CallOk msgId, st3) \<Rightarrow>
                      (ToolResult (check_mark @ '' Email sent to '' @ toMail args
                                     @ '' after token refresh. Gmail Message ID: '' @ msgId) False, st3)
                  | (CallErr c2 m2, st3) \<Rightarrow>
                      (ToolResult (cross_mark @ '' Authentication failed and token refresh unsuccessful: ''
                                     @ m2 @ ''. Please re-authenticate Gmail.'') True, st3)))
          else
            (ToolResult (cross_mark @ '' Failed to send email: '' @ m) True, st1))"

text \<open>
  \<open>handler(args, userId)\<close> of the tool \<open>GMAIL_SENDER\<close> in the second file of
  src/routes.ts.
\<close>

definition GMAIL_SENDER_handler :: "env \<Rightarrow> mail \<Rightarrow> string option \<Rightarrow> accessKey list \<Rightarrow> tool_result \<times> run" where
  "GMAIL_SENDER_handler e args userId db =
     (let st = \<lparr>accessKeys = db, events = []\<rparr> in
      if toMail args = [] \<or> subject args = [] \<or> body args = [] \<or> \<not> present userId then
        (ToolResult (cross_mark @ '' Missing required parameters: toMail, subject, body, or userId.'') True, st)
      else if \<not> configured e then
        (ToolResult (cross_mark @ '' Server configuration error: Google OAuth credentials not set.'') True, st)
      else
        case findUnique_accessKey db (the userId) ''GMAIL_SENDER'' of
          None \<Rightarrow>
            (ToolResult (cross_mark @ '' No refresh token found. Please authenticate Gmail first.'') True, st)
        | Some key \<Rightarrow>
            if \<not> present (refreshToken key) then
              (ToolResult (cross_mark @ '' No refresh token found. Please authenticate Gmail first.'') True, st)
            else if shouldRefreshToken (now e) (Some (expiryDate key)) \<or> accessToken key = [] then
              (case refreshAccessToken e (the userId) (the (refreshToken key)) st of
                 (Inl err, st1) \<Rightarrow>
                   (ToolResult (cross_mark @ '' Failed to refresh token: '' @ err
                                  @ ''. Please re-authenticate Gmail.'') True, st1)
               | (Inr tok, st1) \<Rightarrow>
                   send_with_retry e args (the userId) (the (refreshToken key)) tok st1)
            else
              send_with_retry e args (the userId) (the (refreshToken key)) (accessToken key) st)"

subsection \<open>The Gmail handler without one (src/toolsFolder/GMAIL_SENDER.ts)\<close>

definition GMAIL_SENDER_plain_handler :: "env \<Rightarrow> mail \<Rightarrow> string option \<Rightarrow> accessKey list \<Rightarrow> tool_result \<times> run" where
  "GMAIL_SENDER_plain_handler e args userId db =
     (let st = \<lparr>accessKeys = db, events = []\<rparr> in
      if toMail args = [] \<or> subject args = [] \<or> body args = [] \<or> \<not> present userId then
        (ToolResult (cross_mark @ '' Missing required parameters: toMail, subject, body, or userId.'') True, st)
      else
        case findUnique_accessKey db (the userId) ''GMAIL_SENDER'' of
          None \<Rightarrow>
            (ToolResult (cross_mark @ '' No access token found. Please authenticate Gmail first.'') True, st)
        | Some key \<Rightarrow>
            if accessToken key = [] then
              (ToolResult (cross_mark @ '' No access token found. Please authenticate Gmail first.'') True, st)
            else
              (case provider_call e (accessToken key) st of
                 (CallOk msgId, st1) \<Rightarrow>
                   (ToolResult (check_mark @ '' Email sent to '' @ toMail args @ ''. Gmail Message ID: '' @ msgId)
                      False, st1)
               | (CallErr c m, st1) \<Rightarrow>
                   (ToolResult (cross_mark @ '' Failed to send email: '' @ m) True, st1)))"


subsection \<open>The Calendar handler (unnamed/part_002)\<close>

text \<open>
  The arguments that decide the control flow, as the \<open>inputSchema\<close> types them. The
  optional ones (description, time zone, attendees, location, reminders, Meet link,
  visibility, calendar id) only go into the request body and the printed event.
\<close>

record event_args =
  title :: string
  startDateTime :: string
  endDateTime :: string

definition squote :: string where
  "squote = [CHR 0x27]"

definition newline :: string where
  "newline = [CHR 0x0A]"

text \<open>
  The marks at the head of this file's messages are stored mis-encoded: its literals hold
  the bytes below where the other files hold \<open>cross_mark\<close> and \<open>check_mark\<close>.
\<close>

definition cross_mark_part_002 :: string where
  "cross_mark_part_002 = [CHR 0xC3, CHR 0xA2, CHR 0xC5, CHR 0x92]"

definition check_mark_part_002 :: string where
  "check_mark_part_002 = [CHR 0xC3, CHR 0xA2, CHR 0xC5, CHR 0x93, CHR 0xE2, CHR 0x80, CHR 0xA6]"

text \<open>
  \<open>handler(args, userId)\<close> of the tool \<open>CALENDAR_EVENT_CREATOR\<close>. The data of a
  successful \<open>calendar.events.insert\<close> stands for the lines the handler prints from it
  (title, start, end, link, location, attendees, Meet link, event id).
\<close>

definition CALENDAR_EVENT_CREATOR_handler ::
  "env \<Rightarrow> event_args \<Rightarrow> string option \<Rightarrow> accessKey list \<Rightarrow> tool_result \<times> run" where
  "CALENDAR_EVENT_CREATOR_handler e args userId db =
     (let st = \<lparr>accessKeys = db, events = []\<rparr> in
      if title args = [] \<or> startDateTime args = [] \<or> endDateTime args = [] \<or> \<not> present userId then
        (ToolResult (cross_mark_part_002
           @ '' Missing required parameters: title, startDateTime, endDateTime, or userId.'') True, st)
      else if date_of e (startDateTime args) = None \<or> date_of e (endDateTime args) = None then
        (ToolResult (cross_mark_part_002 @ '' Invalid date format. Please use ISO format (e.g., '' @ squote
           @ ''2024-06-15T10:00:00'' @ squote @ '').'') True, st)
      else if the (date_of e (startDateTime args)) \<ge> the (date_of e (endDateTime args)) then
        (ToolResult (cross_mark_part_002 @ '' Start time must be before end time.'') True, st)
      else
        let key = findUnique_accessKey db (the userId) ''CALENDAR_EVENT_CREATOR'';
            oldAccessToken = map_option accessToken key;
            oldRefreshToken = Option.bind key refreshToken
        in
        if \<not> present oldAccessToken \<and> \<not> present oldRefreshToken then
          (ToolResult (cross_mark_part_002
             @ '' No access or refresh token found. Please authenticate Google Calendar first.'') True, st)
        else if \<not> configured e then
          (ToolResult (cross_mark_part_002 @ '' Server configuration error: Google OAuth credentials not set.'') True, st)
        else
          (case provider_call e (the oldAccessToken) st of
             (CallOk printed, st1) \<Rightarrow>
               (ToolResult (check_mark_part_002 @ '' Calendar event created successfully!'' @ newline @ printed) False,
                st1)
           | (CallErr c m, st1) \<Rightarrow>
               if c = Num 401 \<or> (m \<noteq> [] \<and> str_includes m ''invalid_grant'') then
                 if \<not> present oldRefreshToken then
                   (ToolResult (cross_mark_part_002
                      @ '' Access token expired and no refresh token found. Please re-authenticate Google Calendar.'')
                      True, st1)
                 else
                   let n = length (filter (\<lambda>ev. \<not> is_call ev) (events st1));
                       st2 = st1\<lparr>events := events st1 @ [RefreshAccessToken]\<rparr>;
                       failed = (\<lambda>refreshError st'.
                         (ToolResult (cross_mark_part_002
                            @ '' Failed to refresh token or create event after refresh: '' @ refreshError
                            @ ''. Please re-authenticate Google Calendar.'') True, st'))
                   in
                   (case refresh_reply e n of
                      RefreshErr m' \<Rightarrow> failed m' st2
                    | RefreshOk newAccessToken newRefreshToken \<Rightarrow>
                        if \<not> present newAccessToken then
                          failed ''Failed to get new access token during refresh.'' st2
                        else
                          (case update_accessKey (accessKeys st2) (the userId) ''CALENDAR_EVENT_CREATOR''
                                  (\<lambda>r. r\<lparr>accessToken := the newAccessToken,
                                          refreshToken := (if present newRefreshToken then newRefreshToken
                                                           else oldRefreshToken)\<rparr>) of
                             None \<Rightarrow> failed record_not_found st2
                           | Some rows \<Rightarrow>
                               (case provider_call e (the newAccessToken) (st2\<lparr>accessKeys := rows\<rparr>) of
                                  (CallOk printed, st3) \<Rightarrow>
                                    (ToolResult (check_mark_part_002
                                       @ '' Calendar event created successfully after token refresh!''
                                       @ newline @ printed) False, st3)
                                | (CallErr c2 m2, st3) \<Rightarrow> failed m2 st3)))
               else
                 (ToolResult (cross_mark_part_002 @ '' Failed to create calendar event: '' @ m) True, st1)))"


section \<open>Notions of the specification and example inputs\<close>

text \<open>A ToolSubscription row exists for the user \<open>u\<close> and the tool name \<open>t\<close>.\<close>

definition row_exists :: "userTool list \<Rightarrow> string \<Rightarrow> string \<Rightarrow> bool" where
  "row_exists userTools u t = (\<exists>r\<in>set userTools. ut_userId r = u \<and> ut_toolId r = t)"

text \<open>
  The example scenario of the specification: the user \<open>u1\<close> calls \<open>get_time\<close> with
  request id 7.
\<close>

definition example_call :: jsval where
  "example_call =
     Obj [(''jsonrpc'', Str ''2.0''), (''method'', Str ''tools/call''), (''id'', Num 7),
          (''params'', Obj [(''name'', Str ''get_time''), (''arguments'', Obj [])])]"

definition example_list :: jsval where
  "example_list = Obj [(''jsonrpc'', Str ''2.0''), (''method'', Str ''tools/list''), (''id'', Num 8)]"

definition example_unknown :: jsval where
  "example_unknown = Obj [(''jsonrpc'', Str ''2.0''), (''method'', Str ''tools/remove''), (''id'', Num 0)]"

definition example_notification :: jsval where
  "example_notification = Obj [(''jsonrpc'', Str ''2.0''), (''method'', Str ''notifications/cancelled'')]"

definition example_rows :: "userTool list" where
  "example_rows = [\<lparr>ut_userId = ''u1'', ut_toolId = ''get_time'', ut_authorized = False\<rparr>]"

definition get_time_tool :: Tool where
  "get_time_tool = \<lparr>name = ''get_time'', description = ''Get current time'',
     inputSchema = Obj [(''type'', Str ''object''), (''properties'', Obj []), (''required'', Arr [])]\<rparr>"

definition calculate_tool :: Tool where
  "calculate_tool = \<lparr>name = ''calculate'', description = ''Perform basic math calculations'',
     inputSchema = Obj [(''type'', Str ''object'')]\<rparr>"

text \<open>
  A handler that answers the user id it was given, and counts its calls in the world.
\<close>

definition whoami_handler :: "nat handler" where
  "whoami_handler toolArgs userId w = (Inr (ToolResult (js_to_string userId) False), Suc w)"

definition example_handlers :: "string \<rightharpoonup> nat handler" where
  "example_handlers = [''get_time'' \<mapsto> whoami_handler]"

text \<open>
  A refresh succeeds when the provider answers credentials with an access token; an API
  call fails when the provider throws.
\<close>

fun refresh_succeeds :: "refresh_outcome \<Rightarrow> bool" where
  "refresh_succeeds (RefreshOk newAccessToken newRefreshToken) = present newAccessToken"
| "refresh_succeeds (RefreshErr m) = False"

fun refreshed_token :: "refresh_outcome \<Rightarrow> string" where
  "refreshed_token (RefreshOk newAccessToken newRefreshToken) = the newAccessToken"
| "refreshed_token (RefreshErr m) = []"

fun is_failure :: "call_outcome \<Rightarrow> bool" where
  "is_failure (CallErr c m) = True"
| "is_failure (CallOk d) = False"

text \<open>The error the Calendar handler takes for an expired or invalid token.\<close>

definition is_token_error :: "jsval \<Rightarrow> string \<Rightarrow> bool" where
  "is_token_error c m = (c = Num 401 \<or> (m \<noteq> [] \<and> str_includes m ''invalid_grant''))"

text \<open>
  Example runs of the provider-backed tools. The clock reads 1000000; the stored Gmail
  token expires 1000 seconds later, outside the guard window.
\<close>

definition example_mail :: mail where
  "example_mail = \<lparr>toMail = ''a@example.com'', subject = ''Hi'', body = ''Hello''\<rparr>"

definition example_key :: accessKey where
  "example_key = \<lparr>ak_userId = ''u1'', ak_toolId = ''GMAIL_SENDER'', accessToken = ''old-token'',
     refreshToken = Some ''refresh-1'', expiryDate = 2000000\<rparr>"

definition expired_key_without_refresh :: accessKey where
  "expired_key_without_refresh = \<lparr>ak_userId = ''u1'', ak_toolId = ''GMAIL_SENDER'',
     accessToken = ''old-token'', refreshToken = None, expiryDate = 0\<rparr>"

definition example_event :: event_args where
  "example_event = \<lparr>title = ''Standup'', startDateTime = ''2024-06-15T10:00:00'',
     endDateTime = ''2024-06-15T11:00:00''\<rparr>"

definition calendar_key :: accessKey where
  "calendar_key = \<lparr>ak_userId = ''u1'', ak_toolId = ''CALENDAR_EVENT_CREATOR'', accessToken = ''old-token'',
     refreshToken = Some ''refresh-1'', expiryDate = 0\<rparr>"

definition example_dates :: "string \<Rightarrow> int option" where
  "example_dates s =
     (if s = ''2024-06-15T10:00:00'' then Some 1718445600000
      else if s = ''2024-06-15T11:00:00'' then Some 1718449200000 else None)"

text \<open>A provider that rejects the old access token with 401, and rejects the refresh.\<close>

definition env_refresh_rejected :: env where
  "env_refresh_rejected = \<lparr>configured = True, now = 1000000, refresh_time = (\<lambda>n. 1000500),
     refresh_reply = (\<lambda>n. RefreshErr ''invalid_grant''),
     call_reply = (\<lambda>n tok. CallErr (Num 401) ''Invalid Credentials''),
     date_of = example_dates\<rparr>"

text \<open>
  A provider that rejects the old access token with 401, refreshes it (sending no new
  refresh token) and accepts the new one.
\<close>

definition env_retry_succeeds :: env where
  "env_retry_succeeds = \<lparr>configured = True, now = 1000000, refresh_time = (\<lambda>n. 1000500),
     refresh_reply = (\<lambda>n. RefreshOk (Some ''new-token'') None),
     call_reply = (\<lambda>n tok. if tok = ''new-token'' then CallOk ''18c2f0''
                             else CallErr (Num 401) ''Invalid Credentials''),
     date_of = example_dates\<rparr>"

text \<open>The Gmail row with an expiry 200 seconds after the clock, inside the guard window.\<close>

definition stale_key :: accessKey where
  "stale_key = \<lparr>ak_userId = ''u1'', ak_toolId = ''GMAIL_SENDER'', accessToken = ''old-token'',
     refreshToken = Some ''refresh-1'', expiryDate = 1200000\<rparr>"

text \<open>
  A provider that rejects the old access token with 403, would refresh it, and accepts
  the new one.
\<close>

definition env_forbidden :: env where
  "env_forbidden = \<lparr>configured = True, now = 1000000, refresh_time = (\<lambda>n. 1000500),
     refresh_reply = (\<lambda>n. RefreshOk (Some ''new-token'') None),
     call_reply = (\<lambda>n tok. if tok = ''new-token'' then CallOk ''18c2f0''
                             else CallErr (Num 403) ''forbidden''),
     date_of = example_dates\<rparr>"

section \<open>Properties of the authorization gate\<close>

lemma includes_rows:
  "js_includes (map ut_toolId (filter (\<lambda>r. ut_userId r = u) userTools)) (Str t) = row_exists userTools u t"
  by (auto simp: js_includes_def row_exists_def)

lemma handleToolCall_denied:
  assumes "truthy args" and "get_prop args ''userId'' = Str u" and "\<not> row_exists userTools u t"
  shows "handleToolCall userTools toolHandlers (Str t) args w =
           (Inr (ToolResult (cross_mark @ '' Access denied. Tool '' @ dquote @ t @ dquote
                   @ '' is not subscribed for this user.'') True), w, [])"
  using assms by (simp add: handleToolCall_def includes_rows)

lemma handleToolCall_subscribed:
  assumes "truthy args" and "get_prop args ''userId'' = Str u" and "row_exists userTools u t"
  shows "handleToolCall userTools toolHandlers (Str t) args w =
           (case toolHandlers t of
              None \<Rightarrow> (Inr (ToolResult (cross_mark @ '' Tool '' @ dquote @ t @ dquote
                                 @ '' is not implemented.'') True), w, [])
            | Some handler \<Rightarrow>
                (case handler (Obj (AList.delete ''userId'' (own_entries args))) (Str u) w of
                   (r, w') \<Rightarrow> (r, w', [(t, Obj (AList.delete ''userId'' (own_entries args)), Str u)])))"
  using assms by (simp add: handleToolCall_def includes_rows Let_def split: option.splits)

lemma handleToolCall_calls:
  assumes "handleToolCall userTools toolHandlers nm args w = (r, w', calls)"
  shows "\<forall>(k, a, u)\<in>set calls. u = get_prop args ''userId''"
  using assms
  by (auto simp: handleToolCall_def Let_def split: if_splits sum.splits option.splits prod.splits)

lemma argsWithUser_userId: "get_prop (argsWithUser args userId) ''userId'' = js_of_userId userId"
  by (simp add: argsWithUser_def update_conv')

lemma argsWithUser_truthy: "truthy (argsWithUser args userId)"
  by (simp add: argsWithUser_def)

lemma argsWithUser_rest:
  "AList.delete ''userId'' (own_entries (argsWithUser args userId)) = AList.delete ''userId'' (own_entries args)"
  by (simp add: argsWithUser_def delete_update_same)

lemma get_prop_Str:
  assumes "get_prop v k = Str s"
  shows "v \<noteq> Undefined \<and> v \<noteq> Null \<and> truthy v \<and> has_key k v"
  using assms by (cases v) (auto split: option.splits)

text \<open>
  C10: in \<open>handleToolCall\<close> the subscription check comes before the look-up of the
  handler. For a caller with a user id \<open>u\<close> and a tool name \<open>t\<close>: without a row for
  \<open>(u, t)\<close> the result is the access-denied message, whatever the registry holds; with a
  row and no handler under \<open>t\<close> it is the not-implemented message; and the
  not-implemented message is returned only when a row for \<open>(u, t)\<close> exists.
\<close>

theorem subscription_check_first:
  assumes "truthy args" and "get_prop args ''userId'' = Str u"
  shows "(\<not> row_exists userTools u t \<longrightarrow>
            handleToolCall userTools toolHandlers (Str t) args w =
              (Inr (ToolResult (cross_mark @ '' Access denied. Tool '' @ dquote @ t @ dquote
                      @ '' is not subscribed for this user.'') True), w, []))
       \<and> (row_exists userTools u t \<and> toolHandlers t = None \<longrightarrow>
            handleToolCall userTools toolHandlers (Str t) args w =
              (Inr (ToolResult (cross_mark @ '' Tool '' @ dquote @ t @ dquote
                      @ '' is not implemented.'') True), w, []))
       \<and> (\<forall>w' calls.
            handleToolCall userTools toolHandlers (Str t) args w =
              (Inr (ToolResult (cross_mark @ '' Tool '' @ dquote @ t @ dquote
                      @ '' is not implemented.'') True), w', calls)
            \<longrightarrow> row_exists userTools u t)"
proof (intro conjI impI allI)
  assume "\<not> row_exists userTools u t"
  with assms show "handleToolCall userTools toolHandlers (Str t) args w =
              (Inr (ToolResult (cross_mark @ '' Access denied. Tool '' @ dquote @ t @ dquote
                      @ '' is not subscribed for this user.'') True), w, [])"
    by (rule handleToolCall_denied)
next
  assume "row_exists userTools u t \<and> toolHandlers t = None"
  with assms show "handleToolCall userTools toolHandlers (Str t) args w =
              (Inr (ToolResult (cross_mark @ '' Tool '' @ dquote @ t @ dquote
                      @ '' is not implemented.'') True), w, [])"
    by (simp add: handleToolCall_subscribed)
next
  fix w' calls
  assume eq: "handleToolCall userTools toolHandlers (Str t) args w =
              (Inr (ToolResult (cross_mark @ '' Tool '' @ dquote @ t @ dquote
                      @ '' is not implemented.'') True), w', calls)"
  show "row_exists userTools u t"
  proof (rule ccontr)
    assume "\<not> row_exists userTools u t"
    from handleToolCall_denied[OF assms this, of toolHandlers w] eq
    show False by simp
  qed
qed

theorem subscription_check_first_witness:
  "truthy (Obj [(''userId'', Str ''u2'')])
   \<and> get_prop (Obj [(''userId'', Str ''u2'')]) ''userId'' = Str ''u2''
   \<and> \<not> row_exists example_rows ''u2'' ''no_such_tool''
   \<and> handleToolCall example_rows Map.empty (Str ''no_such_tool'') (Obj [(''userId'', Str ''u2'')]) (0::nat) =
       (Inr (ToolResult (cross_mark @ '' Access denied. Tool '' @ dquote @ ''no_such_tool'' @ dquote
               @ '' is not subscribed for this user.'') True), 0, [])
   \<and> truthy (Obj [(''userId'', Str ''u1'')])
   \<and> get_prop (Obj [(''userId'', Str ''u1'')]) ''userId'' = Str ''u1''
   \<and> row_exists example_rows ''u1'' ''get_time''
   \<and> handleToolCall example_rows Map.empty (Str ''get_time'') (Obj [(''userId'', Str ''u1'')]) (0::nat) =
       (Inr (ToolResult (cross_mark @ '' Tool '' @ dquote @ ''get_time'' @ dquote
               @ '' is not implemented.'') True), 0, [])"
proof -
  have a: "truthy (Obj [(''userId'', Str ''u2'')])" by simp
  have b: "get_prop (Obj [(''userId'', Str ''u2'')]) ''userId'' = Str ''u2''" by simp
  have c: "\<not> row_exists example_rows ''u2'' ''no_such_tool''"
    by (simp add: row_exists_def example_rows_def)
  have a': "truthy (Obj [(''userId'', Str ''u1'')])" by simp
  have b': "get_prop (Obj [(''userId'', Str ''u1'')]) ''userId'' = Str ''u1''" by simp
  have c': "row_exists example_rows ''u1'' ''get_time''"
    by (simp add: row_exists_def example_rows_def)
  have n: "(Map.empty :: string \<rightharpoonup> nat handler) ''get_time'' = None" by simp
  from subscription_check_first[OF a b, of example_rows "''no_such_tool''" Map.empty "0::nat"] c
  have denied: "handleToolCall example_rows Map.empty (Str ''no_such_tool'') (Obj [(''userId'', Str ''u2'')]) (0::nat) =
       (Inr (ToolResult (cross_mark @ '' Access denied. Tool '' @ dquote @ ''no_such_tool'' @ dquote
               @ '' is not subscribed for this user.'') True), 0, [])"
    by blast
  from subscription_check_first[OF a' b', of example_rows "''get_time''" Map.empty "0::nat"] c' n
  have missing: "handleToolCall example_rows Map.empty (Str ''get_time'') (Obj [(''userId'', Str ''u1'')]) (0::nat) =
       (Inr (ToolResult (cross_mark @ '' Tool '' @ dquote @ ''get_time'' @ dquote
               @ '' is not implemented.'') True), 0, [])"
    by blast
  from a b c denied a' b' c' missing show ?thesis by blast
qed

section \<open>Properties of the dispatcher\<close>

lemma post_mcp_request:
  assumes "get_prop message ''jsonrpc'' = Str ''2.0''"
    and "has_key ''method'' message" and "has_key ''id'' message"
  shows "post_mcp userTools tools toolHandlers userId message w =
           (case dispatch userTools tools toolHandlers userId message w of
              (Inr r, w', calls) \<Rightarrow> (Json 200 (RpcResult r (get_prop message ''id'')), w', calls)
            | (Inl e, w', calls) \<Rightarrow> (Json 500 (RpcError (- 32603) e (get_prop message ''id'')), w', calls))"
  using assms get_prop_Str[OF assms(1)] by (simp add: post_mcp_def)

lemma dispatch_tools_call:
  assumes "get_prop message ''method'' = Str ''tools/call''"
    and "truthy (get_prop message ''params'')"
  shows "dispatch userTools tools toolHandlers userId message w =
           (case handleToolCall userTools toolHandlers (get_prop (get_prop message ''params'') ''name'')
                   (argsWithUser (get_prop (get_prop message ''params'') ''arguments'') userId) w of
              (Inl e, w', calls) \<Rightarrow> (Inl e, w', calls)
            | (Inr r, w', calls) \<Rightarrow> (Inr (ToolCall r), w', calls))"
  using assms by (simp add: dispatch_def Let_def)

text \<open>
  C1: a \<open>tools/call\<close> request of the user \<open>U\<close> for a tool name \<open>T\<close> without a row for
  \<open>(U, T)\<close> is answered by the dispatcher of src/routes.ts with status 200 and a JSON-RPC
  result, not an error: the tool result with \<open>isError: true\<close> and the access-denied
  message. No handler is called and the world is as before.
\<close>

theorem unsubscribed_tools_call_denied:
  assumes "\<not> row_exists userTools U T"
    and "get_prop message ''jsonrpc'' = Str ''2.0''"
    and "get_prop message ''method'' = Str ''tools/call''"
    and "has_key ''id'' message"
    and "get_prop (get_prop message ''params'') ''name'' = Str T"
  shows "post_mcp userTools tools toolHandlers (Some U) message w =
           (Json 200 (RpcResult
              (ToolCall (ToolResult (cross_mark @ '' Access denied. Tool '' @ dquote @ T @ dquote
                           @ '' is not subscribed for this user.'') True))
              (get_prop message ''id'')), w, [])"
proof -
  have m: "has_key ''method'' message" using get_prop_Str[OF assms(3)] by simp
  have p: "truthy (get_prop message ''params'')" using get_prop_Str[OF assms(5)] by simp
  have u: "get_prop (argsWithUser (get_prop (get_prop message ''params'') ''arguments'') (Some U)) ''userId'' = Str U"
    by (simp add: argsWithUser_userId js_of_userId_def)
  show ?thesis
    by (simp add: post_mcp_request[OF assms(2) m assms(4)] dispatch_tools_call[OF assms(3) p]
        assms(5) handleToolCall_denied[OF argsWithUser_truthy u assms(1)])
qed

theorem unsubscribed_tools_call_denied_witness:
  "\<not> row_exists example_rows ''u2'' ''get_time''
   \<and> get_prop example_call ''jsonrpc'' = Str ''2.0''
   \<and> get_prop example_call ''method'' = Str ''tools/call''
   \<and> has_key ''id'' example_call
   \<and> get_prop (get_prop example_call ''params'') ''name'' = Str ''get_time''
   \<and> post_mcp example_rows [get_time_tool] example_handlers (Some ''u2'') example_call (0::nat) =
           (Json 200 (RpcResult
              (ToolCall (ToolResult (cross_mark @ '' Access denied. Tool '' @ dquote @ ''get_time'' @ dquote
                           @ '' is not subscribed for this user.'') True))
              (Num 7)), 0, [])"
proof -
  have a: "\<not> row_exists example_rows ''u2'' ''get_time''"
    by (simp add: row_exists_def example_rows_def)
  have b: "get_prop example_call ''jsonrpc'' = Str ''2.0''"
    and c: "get_prop example_call ''method'' = Str ''tools/call''"
    and d: "has_key ''id'' example_call"
    and e: "get_prop (get_prop example_call ''params'') ''name'' = Str ''get_time''"
    and i: "get_prop example_call ''id'' = Num 7"
    by (simp_all add: example_call_def)
  from unsubscribed_tools_call_denied[OF a b c d e, of "[get_time_tool]" example_handlers "0::nat"] a b c d e i
  show ?thesis by simp
qed

text \<open>
  The dispatcher of unnamed/part_001 gives the same answer when the user id and the tool
  name are not empty; it rejects the request before \<open>handleToolCall\<close> otherwise.
\<close>

lemma unsubscribed_tools_call_denied_part_001:
  assumes "\<not> row_exists userTools U T" and "U \<noteq> []" and "T \<noteq> []"
    and "get_prop message ''method'' = Str ''tools/call''"
    and "has_key ''id'' message"
    and "get_prop (get_prop message ''params'') ''name'' = Str T"
  shows "post_mcp_part_001 userTools tools toolHandlers (Some U) message w =
           (Json 200 (RpcResult
              (ToolCall (ToolResult (cross_mark @ '' Access denied. Tool '' @ dquote @ T @ dquote
                           @ '' is not subscribed for this user.'') True))
              (get_prop message ''id'')), w, [])"
proof -
  have m: "has_key ''method'' message" "is_object message"
    using assms(4) by (cases message; simp split: option.splits)+
  have p: "truthy (get_prop message ''params'')" using get_prop_Str[OF assms(6)] by simp
  have u: "get_prop (argsWithUser (get_prop (get_prop message ''params'') ''arguments'') (Some U)) ''userId'' = Str U"
    by (simp add: argsWithUser_userId js_of_userId_def)
  have d: "dispatch_part_001 userTools tools toolHandlers (Some U) message w =
             (Inr (ToolCall (ToolResult (cross_mark @ '' Access denied. Tool '' @ dquote @ T @ dquote
                           @ '' is not subscribed for this user.'') True)), w, [])"
    using assms(3,4,6) p
    by (simp add: dispatch_part_001_def Let_def handleToolCall_denied[OF argsWithUser_truthy u assms(1)])
  show ?thesis
    using m assms(2,5) by (simp add: post_mcp_part_001_def js_of_userId_def d)
qed

lemma getToolsForUser_Str:
  "getToolsForUser userTools (Str U) tools = Inr (filter (\<lambda>tool. row_exists userTools U (name tool)) tools)"
proof -
  have "\<And>n. n \<in> set (map ut_toolId (filter (\<lambda>r. ut_userId r = U) userTools)) \<longleftrightarrow> row_exists userTools U n"
    by (auto simp: row_exists_def)
  then show ?thesis by (simp add: getToolsForUser_def)
qed

text \<open>
  C4: the dispatcher of src/routes.ts answers \<open>tools/list\<close> of the user \<open>U\<close> with the
  list \<open>getToolsForUser\<close> computes. A tool is in that list iff it is registered and a row
  exists for \<open>U\<close> and its name, and the list is a subsequence of the registry's list, so
  it keeps the registration order.
\<close>

theorem tools_list_subscribed_only:
  assumes "get_prop message ''jsonrpc'' = Str ''2.0''"
    and "get_prop message ''method'' = Str ''tools/list''"
    and "has_key ''id'' message"
  shows "\<exists>listed.
           getToolsForUser userTools (Str U) tools = Inr listed
         \<and> post_mcp userTools tools toolHandlers (Some U) message w =
             (Json 200 (RpcResult (ToolList listed) (get_prop message ''id'')), w, [])
         \<and> (\<forall>tool. tool \<in> set listed \<longleftrightarrow> tool \<in> set tools \<and> row_exists userTools U (name tool))
         \<and> subseq listed tools"
proof -
  let ?listed = "filter (\<lambda>tool. row_exists userTools U (name tool)) tools"
  have m: "has_key ''method'' message" using get_prop_Str[OF assms(2)] by simp
  have d: "dispatch userTools tools toolHandlers (Some U) message w = (Inr (ToolList ?listed), w, [])"
    using assms(2) by (simp add: dispatch_def js_of_userId_def getToolsForUser_Str)
  have "post_mcp userTools tools toolHandlers (Some U) message w =
             (Json 200 (RpcResult (ToolList ?listed) (get_prop message ''id'')), w, [])"
    by (simp add: post_mcp_request[OF assms(1) m assms(3)] d)
  moreover have "\<forall>tool. tool \<in> set ?listed \<longleftrightarrow> tool \<in> set tools \<and> row_exists userTools U (name tool)"
    by auto
  moreover have "subseq ?listed tools" by simp
  ultimately show ?thesis using getToolsForUser_Str by blast
qed

theorem tools_list_subscribed_only_witness:
  "get_prop example_list ''jsonrpc'' = Str ''2.0''
   \<and> get_prop example_list ''method'' = Str ''tools/list''
   \<and> has_key ''id'' example_list
   \<and> row_exists example_rows ''u1'' (name get_time_tool)
   \<and> \<not> row_exists example_rows ''u1'' (name calculate_tool)
   \<and> post_mcp example_rows [calculate_tool, get_time_tool] example_handlers (Some ''u1'') example_list (0::nat) =
       (Json 200 (RpcResult (ToolList [get_time_tool]) (Num 8)), 0, [])"
proof -
  have a: "get_prop example_list ''jsonrpc'' = Str ''2.0''"
    and b: "get_prop example_list ''method'' = Str ''tools/list''"
    and c: "has_key ''id'' example_list"
    and i: "get_prop example_list ''id'' = Num 8"
    by (simp_all add: example_list_def)
  have r: "row_exists example_rows ''u1'' (name get_time_tool)"
    and n: "\<not> row_exists example_rows ''u1'' (name calculate_tool)"
    by (simp_all add: row_exists_def example_rows_def get_time_tool_def calculate_tool_def)
  have g: "getToolsForUser example_rows (Str ''u1'') [calculate_tool, get_time_tool] = Inr [get_time_tool]"
    by (simp add: getToolsForUser_def example_rows_def get_time_tool_def calculate_tool_def)
  from tools_list_subscribed_only[OF a b c, of example_rows "''u1''" "[calculate_tool, get_time_tool]"
      example_handlers "0::nat"]
  obtain listed where "getToolsForUser example_rows (Str ''u1'') [calculate_tool, get_time_tool] = Inr listed"
    and "post_mcp example_rows [calculate_tool, get_time_tool] example_handlers (Some ''u1'') example_list (0::nat) =
             (Json 200 (RpcResult (ToolList listed) (get_prop example_list ''id'')), 0, [])"
    by blast
  with g i a b c r n show ?thesis by simp
qed

text \<open>
  The dispatcher of src/routes.ts rejects a body whose \<open>jsonrpc\<close> is missing or not
  \<open>"2.0"\<close> with -32600, before it looks at the method.
\<close>

lemma post_mcp_invalid_jsonrpc:
  assumes "message \<noteq> Undefined" and "message \<noteq> Null" and "get_prop message ''jsonrpc'' \<noteq> Str ''2.0''"
  shows "post_mcp userTools tools toolHandlers userId message w =
           (Json 400 (RpcError (- 32600) ''Invalid Request - missing or invalid jsonrpc field''
                        (js_or (get_prop message ''id'') Null)), w, [])"
  using assms by (simp add: post_mcp_def)

text \<open>
  C5: the dispatcher of unnamed/part_001 has no such test. The request
  \<open>{method: "initialize", id: 1}\<close> of the user \<open>u1\<close>, which has no \<open>jsonrpc\<close> member, is
  dispatched and answered with status 200 and the result of \<open>initialize\<close>.
\<close>

theorem part_001_dispatches_without_jsonrpc:
  "get_prop (Obj [(''method'', Str ''initialize''), (''id'', Num 1)]) ''jsonrpc'' = Undefined
   \<and> post_mcp_part_001 [] [] Map.empty (Some ''u1'')
        (Obj [(''method'', Str ''initialize''), (''id'', Num 1)]) (0::nat) =
       (Json 200 (RpcResult (Static initialize_result_part_001) (Num 1)), 0, [])"
  by (simp add: post_mcp_part_001_def js_of_userId_def dispatch_part_001_def)

text \<open>
  C7: a request with \<open>jsonrpc: "2.0"\<close>, a method and an id whose method is none of
  \<open>initialize\<close>, \<open>tools/list\<close> and \<open>tools/call\<close> is answered by the dispatcher of
  src/routes.ts with a JSON-RPC error (code -32603, status 500) that carries the id of the
  request; nothing is called.
\<close>

theorem unknown_method_error_keeps_id:
  assumes "get_prop message ''jsonrpc'' = Str ''2.0''"
    and "has_key ''method'' message"
    and "has_key ''id'' message"
    and "get_prop message ''method'' \<noteq> Str ''initialize''"
    and "get_prop message ''method'' \<noteq> Str ''tools/list''"
    and "get_prop message ''method'' \<noteq> Str ''tools/call''"
  shows "post_mcp userTools tools toolHandlers userId message w =
           (Json 500 (RpcError (- 32603) (''Method not found: '' @ js_to_string (get_prop message ''method''))
                        (get_prop message ''id'')), w, [])"
  using assms(4-6) by (simp add: post_mcp_request[OF assms(1-3)] dispatch_def)

theorem unknown_method_error_keeps_id_witness:
  "get_prop example_unknown ''jsonrpc'' = Str ''2.0''
   \<and> has_key ''method'' example_unknown
   \<and> has_key ''id'' example_unknown
   \<and> get_prop example_unknown ''method'' = Str ''tools/remove''
   \<and> get_prop example_unknown ''id'' = Num 0
   \<and> post_mcp example_rows [get_time_tool] example_handlers (Some ''u1'') example_unknown (0::nat) =
       (Json 500 (RpcError (- 32603) ''Method not found: tools/remove'' (Num 0)), 0, [])"
proof -
  have a: "get_prop example_unknown ''jsonrpc'' = Str ''2.0''"
    and b: "has_key ''method'' example_unknown"
    and c: "has_key ''id'' example_unknown"
    and m: "get_prop example_unknown ''method'' = Str ''tools/remove''"
    and i: "get_prop example_unknown ''id'' = Num 0"
    by (simp_all add: example_unknown_def)
  have d: "get_prop example_unknown ''method'' \<noteq> Str ''initialize''"
    and e: "get_prop example_unknown ''method'' \<noteq> Str ''tools/list''"
    and f: "get_prop example_unknown ''method'' \<noteq> Str ''tools/call''"
    by (simp_all add: m)
  from unknown_method_error_keeps_id[OF a b c d e f, of example_rows "[get_time_tool]" example_handlers
      "Some ''u1''" "0::nat"] a b c m i
  show ?thesis by simp
qed

text \<open>
  C8, as stated, fails on the dispatcher of unnamed/part_001: a notification that comes
  without a \<open>userId\<close> query parameter is answered with status 400 and a JSON-RPC error
  body (-32602).
\<close>

theorem notification_without_userId_rejected:
  "has_key ''method'' example_notification
   \<and> \<not> has_key ''id'' example_notification
   \<and> post_mcp_part_001 example_rows [get_time_tool] example_handlers None example_notification (0::nat) =
       (Json 400 (RpcError (- 32602) ''Missing required userId parameter'' Null), 0, [])"
  by (simp add: example_notification_def post_mcp_part_001_def js_of_userId_def js_or_def)

text \<open>
  C8, amended: a notification (a method and no id) is answered with status 204 and no
  body, nothing is called and the world is as before: by the dispatcher of src/routes.ts
  when it carries \<open>jsonrpc: "2.0"\<close>, and by the dispatcher of unnamed/part_001 when the
  request has a non-empty \<open>userId\<close> query parameter.
\<close>

theorem notification_no_content:
  assumes "has_key ''method'' message" and "\<not> has_key ''id'' message"
  shows "(get_prop message ''jsonrpc'' = Str ''2.0'' \<longrightarrow>
            post_mcp userTools tools toolHandlers userId message w = (NoBody 204, w, []))
       \<and> (truthy (js_of_userId userId) \<longrightarrow>
            post_mcp_part_001 userTools tools toolHandlers userId message w = (NoBody 204, w, []))"
proof -
  have o: "is_object message" "message \<noteq> Undefined" "message \<noteq> Null"
    using assms(1) by (cases message; simp)+
  show ?thesis using assms o by (simp add: post_mcp_def post_mcp_part_001_def)
qed

theorem notification_no_content_witness:
  "has_key ''method'' example_notification
   \<and> \<not> has_key ''id'' example_notification
   \<and> get_prop example_notification ''jsonrpc'' = Str ''2.0''
   \<and> truthy (js_of_userId (Some ''u1''))
   \<and> post_mcp example_rows [get_time_tool] example_handlers (Some ''u1'') example_notification (0::nat) =
       (NoBody 204, 0, [])
   \<and> post_mcp_part_001 example_rows [get_time_tool] example_handlers (Some ''u1'') example_notification (0::nat) =
       (NoBody 204, 0, [])"
proof -
  have a: "has_key ''method'' example_notification"
    and b: "\<not> has_key ''id'' example_notification"
    and c: "get_prop example_notification ''jsonrpc'' = Str ''2.0''"
    by (simp_all add: example_notification_def)
  have d: "truthy (js_of_userId (Some ''u1''))" by (simp add: js_of_userId_def)
  from notification_no_content[OF a b, of example_rows "[get_time_tool]" example_handlers "Some ''u1''" "0::nat"]
    a b c d
  show ?thesis by simp
qed

text \<open>
  C9: for a \<open>tools/call\<close> request the dispatcher of src/routes.ts hands
  \<open>handleToolCall\<close> the arguments with the \<open>userId\<close> of the request context written into
  them; every handler call that follows is given that \<open>userId\<close>; and for a subscribed user
  and a registered tool the handler is called once, with the user's id, and its answer is
  the answer of the request.
\<close>

theorem tools_call_injects_userId:
  assumes "get_prop message ''jsonrpc'' = Str ''2.0''"
    and "get_prop message ''method'' = Str ''tools/call''"
    and "has_key ''id'' message"
    and "truthy (get_prop message ''params'')"
    and "nm = get_prop (get_prop message ''params'') ''name''"
    and "args = get_prop (get_prop message ''params'') ''arguments''"
  shows "get_prop (argsWithUser args userId) ''userId'' = js_of_userId userId
       \<and> (\<forall>response w' calls.
            post_mcp userTools tools toolHandlers userId message w = (response, w', calls) \<longrightarrow>
              (\<forall>(k, a, u)\<in>set calls. u = js_of_userId userId))
       \<and> (\<forall>U T handler. userId = Some U \<and> nm = Str T \<and> row_exists userTools U T
              \<and> toolHandlers T = Some handler \<longrightarrow>
            post_mcp userTools tools toolHandlers userId message w =
              (case handler (Obj (AList.delete ''userId'' (own_entries args))) (Str U) w of
                 (Inr r, w') \<Rightarrow>
                   (Json 200 (RpcResult (ToolCall r) (get_prop message ''id'')), w',
                    [(T, Obj (AList.delete ''userId'' (own_entries args)), Str U)])
               | (Inl e, w') \<Rightarrow>
                   (Json 500 (RpcError (- 32603) e (get_prop message ''id'')), w',
                    [(T, Obj (AList.delete ''userId'' (own_entries args)), Str U)])))"
proof (intro conjI allI impI)
  show "get_prop (argsWithUser args userId) ''userId'' = js_of_userId userId"
    by (rule argsWithUser_userId)
next
  have m: "has_key ''method'' message" using get_prop_Str[OF assms(2)] by simp
  note pm = post_mcp_request[OF assms(1) m assms(3)] dispatch_tools_call[OF assms(2) assms(4)]
  {
    fix response w' calls
    assume eq: "post_mcp userTools tools toolHandlers userId message w = (response, w', calls)"
    obtain r w'' calls' where h: "handleToolCall userTools toolHandlers nm (argsWithUser args userId) w = (r, w'', calls')"
      by (cases "handleToolCall userTools toolHandlers nm (argsWithUser args userId) w") auto
    from eq h have "calls = calls'"
      by (cases r) (simp_all add: pm assms(5)[symmetric] assms(6)[symmetric])
    with handleToolCall_calls[OF h]
    show "\<forall>(k, a, u)\<in>set calls. u = js_of_userId userId"
      by (auto simp: argsWithUser_userId)
  }
  {
    fix U T handler
    assume a: "userId = Some U \<and> nm = Str T \<and> row_exists userTools U T \<and> toolHandlers T = Some handler"
    have u: "get_prop (argsWithUser args (Some U)) ''userId'' = Str U"
      by (simp add: argsWithUser_userId js_of_userId_def)
    from a have re: "row_exists userTools U T" by simp
    show "post_mcp userTools tools toolHandlers userId message w =
              (case handler (Obj (AList.delete ''userId'' (own_entries args))) (Str U) w of
                 (Inr r, w') \<Rightarrow>
                   (Json 200 (RpcResult (ToolCall r) (get_prop message ''id'')), w',
                    [(T, Obj (AList.delete ''userId'' (own_entries args)), Str U)])
               | (Inl e, w') \<Rightarrow>
                   (Json 500 (RpcError (- 32603) e (get_prop message ''id'')), w',
                    [(T, Obj (AList.delete ''userId'' (own_entries args)), Str U)]))"
      using a
      by (simp add: pm assms(5)[symmetric] assms(6)[symmetric]
            handleToolCall_subscribed[OF argsWithUser_truthy u re] argsWithUser_rest
            split: prod.splits sum.splits)
  }
qed

theorem tools_call_injects_userId_witness:
  "get_prop example_call ''jsonrpc'' = Str ''2.0''
   \<and> get_prop example_call ''method'' = Str ''tools/call''
   \<and> has_key ''id'' example_call
   \<and> truthy (get_prop example_call ''params'')
   \<and> row_exists example_rows ''u1'' ''get_time''
   \<and> example_handlers ''get_time'' = Some whoami_handler
   \<and> get_prop (argsWithUser (Obj []) (Some ''u1'')) ''userId'' = Str ''u1''
   \<and> post_mcp example_rows [get_time_tool] example_handlers (Some ''u1'') example_call (0::nat) =
       (Json 200 (RpcResult (ToolCall (ToolResult ''u1'' False)) (Num 7)), 1,
        [(''get_time'', Obj [], Str ''u1'')])"
proof -
  have a: "get_prop example_call ''jsonrpc'' = Str ''2.0''"
    and b: "get_prop example_call ''method'' = Str ''tools/call''"
    and c: "has_key ''id'' example_call"
    and d: "truthy (get_prop example_call ''params'')"
    and n: "Str ''get_time'' = get_prop (get_prop example_call ''params'') ''name''"
    and g: "Obj [] = get_prop (get_prop example_call ''params'') ''arguments''"
    and i: "get_prop example_call ''id'' = Num 7"
    by (simp_all add: example_call_def)
  have r: "row_exists example_rows ''u1'' ''get_time''"
    by (simp add: row_exists_def example_rows_def)
  have h: "example_handlers ''get_time'' = Some whoami_handler"
    by (simp add: example_handlers_def)
  from tools_call_injects_userId[OF a b c d n g, of "Some ''u1''" example_rows "[get_time_tool]"
      example_handlers "0::nat"] r h
  have "get_prop (argsWithUser (Obj []) (Some ''u1'')) ''userId'' = js_of_userId (Some ''u1'')"
    and "post_mcp example_rows [get_time_tool] example_handlers (Some ''u1'') example_call (0::nat) =
       (case whoami_handler (Obj (AList.delete ''userId'' (own_entries (Obj [])))) (Str ''u1'') 0 of
          (Inr r, w') \<Rightarrow>
            (Json 200 (RpcResult (ToolCall r) (get_prop example_call ''id'')), w',
             [(''get_time'', Obj (AList.delete ''userId'' (own_entries (Obj []))), Str ''u1'')])
        | (Inl e, w') \<Rightarrow>
            (Json 500 (RpcError (- 32603) e (get_prop example_call ''id'')), w',
             [(''get_time'', Obj (AList.delete ''userId'' (own_entries (Obj []))), Str ''u1'')]))"
    by blast+
  with a b c d r h i show ?thesis
    by (simp add: js_of_userId_def whoami_handler_def)
qed

section \<open>Properties of the token lifecycle\<close>

lemma update_accessKey_None:
  "update_accessKey rows u t f = None \<longleftrightarrow> findUnique_accessKey rows u t = None"
  by (induction rows) (auto simp: findUnique_accessKey_def)

lemma update_accessKey_findUnique:
  assumes "\<And>r. ak_userId (f r) = ak_userId r" and "\<And>r. ak_toolId (f r) = ak_toolId r"
    and "update_accessKey rows u t f = Some rows'"
  shows "findUnique_accessKey rows' u t = map_option f (findUnique_accessKey rows u t)"
  using assms(3)
proof (induction rows arbitrary: rows')
  case Nil
  then show ?case by simp
next
  case (Cons r rs)
  show ?case
  proof (cases "ak_userId r = u \<and> ak_toolId r = t")
    case True
    with Cons.prems show ?thesis
      by (auto simp: findUnique_accessKey_def assms(1,2))
  next
    case False
    with Cons.prems obtain rs' where rs': "update_accessKey rs u t f = Some rs'" and r: "rows' = r # rs'"
      by auto
    from Cons.IH[OF rs'] False r show ?thesis
      by (auto simp: findUnique_accessKey_def)
  qed
qed

lemma provider_call_events:
  "provider_call e tok st = (r, st') \<Longrightarrow>
     events st' = events st @ [ProviderCall tok] \<and> accessKeys st' = accessKeys st
     \<and> r = call_reply e (length (filter is_call (events st))) tok"
  by (auto simp: provider_call_def)

text \<open>
  \<open>refreshAccessToken\<close> makes one refresh call. When it fails (the provider throws, or
  answers no access token) the table is as before.
\<close>

lemma refreshAccessToken_failure:
  assumes "refreshAccessToken e u rt st = (Inl m, st')"
  shows "accessKeys st' = accessKeys st \<and> events st' = events st @ [RefreshAccessToken]"
  using assms
  by (auto simp: refreshAccessToken_def Let_def split: refresh_outcome.splits if_splits option.splits)

text \<open>
  When it succeeds, the row of the user has the new access token, the new refresh token
  if the provider sent one and the old one otherwise, and an expiry one hour after the
  refresh.
\<close>

lemma refreshAccessToken_success:
  assumes "findUnique_accessKey (accessKeys st) u ''GMAIL_SENDER'' = Some key"
    and "refresh_succeeds (refresh_reply e (length (filter (\<lambda>ev. \<not> is_call ev) (events st))))"
  shows "\<exists>st'. refreshAccessToken e u rt st =
             (Inr (refreshed_token (refresh_reply e (length (filter (\<lambda>ev. \<not> is_call ev) (events st))))), st')
         \<and> events st' = events st @ [RefreshAccessToken]
         \<and> findUnique_accessKey (accessKeys st') u ''GMAIL_SENDER'' =
             Some (key\<lparr>accessToken := refreshed_token (refresh_reply e (length (filter (\<lambda>ev. \<not> is_call ev) (events st)))),
                       refreshToken :=
                         (case refresh_reply e (length (filter (\<lambda>ev. \<not> is_call ev) (events st))) of
                            RefreshOk a newRefreshToken \<Rightarrow>
                              if present newRefreshToken then newRefreshToken else Some rt
                          | RefreshErr m \<Rightarrow> Some rt),
                       expiryDate := refresh_time e (length (filter (\<lambda>ev. \<not> is_call ev) (events st))) + 3600000\<rparr>)"
proof -
  let ?n = "length (filter (\<lambda>ev. \<not> is_call ev) (events st))"
  from assms(2) obtain a nrt where rr: "refresh_reply e ?n = RefreshOk a nrt" and pa: "present a"
    by (cases "refresh_reply e ?n") auto
  let ?f = "\<lambda>r. r\<lparr>accessToken := the a, refreshToken := (if present nrt then nrt else Some rt),
                   expiryDate := refresh_time e ?n + 3600 * 1000\<rparr>"
  from assms(1) obtain rows where up: "update_accessKey (accessKeys st) u ''GMAIL_SENDER'' ?f = Some rows"
    using update_accessKey_None[of "accessKeys st" u "''GMAIL_SENDER''" ?f] by (cases "update_accessKey (accessKeys st) u ''GMAIL_SENDER'' ?f") auto
  have fu: "findUnique_accessKey rows u ''GMAIL_SENDER'' = map_option ?f (findUnique_accessKey (accessKeys st) u ''GMAIL_SENDER'')"
    by (rule update_accessKey_findUnique[OF _ _ up]) simp_all
  show ?thesis
    using rr pa up fu assms(1)
    by (simp add: refreshAccessToken_def Let_def)
qed

lemma refreshAccessToken_fails:
  assumes "\<not> refresh_succeeds (refresh_reply e (length (filter (\<lambda>ev. \<not> is_call ev) (events st))))"
  shows "\<exists>m. refreshAccessToken e u rt st = (Inl m, st\<lparr>events := events st @ [RefreshAccessToken]\<rparr>)"
  using assms
  by (cases "refresh_reply e (length (filter (\<lambda>ev. \<not> is_call ev) (events st)))")
     (auto simp: refreshAccessToken_def Let_def)

lemma first_call_unique:
  assumes "xs @ ProviderCall a # r = ys @ ProviderCall b # s"
    and "\<forall>ev\<in>set xs. \<not> is_call ev" and "\<forall>ev\<in>set ys. \<not> is_call ev"
  shows "xs = ys \<and> a = b \<and> r = s"
  using assms
proof (induction xs arbitrary: ys)
  case Nil
  then show ?case by (cases ys) auto
next
  case (Cons x xs)
  then show ?case by (cases ys) auto
qed

lemma no_calls_length:
  assumes "\<forall>ev\<in>set pre. \<not> is_call ev"
  shows "length (filter (\<lambda>ev. \<not> is_call ev) pre) = length pre \<and> filter is_call pre = []"
  using assms by (induction pre) auto

lemma send_with_retry_first:
  assumes "send_with_retry e args u rt tok st = (res, st')"
  shows "\<exists>rest. events st' = events st @ ProviderCall tok # rest"
proof (cases "call_reply e (length (filter is_call (events st))) tok")
  case (CallOk d)
  with assms show ?thesis by (auto simp: send_with_retry_def provider_call_def)
next
  case (CallErr c m)
  let ?st1 = "st\<lparr>events := events st @ [ProviderCall tok]\<rparr>"
  show ?thesis
  proof (cases "isAuthError c m \<and> rt \<noteq> []")
    case False
    with assms CallErr show ?thesis by (auto simp: send_with_retry_def provider_call_def)
  next
    case True
    obtain r st2 where r: "refreshAccessToken e u rt ?st1 = (r, st2)"
      by (cases "refreshAccessToken e u rt ?st1") auto
    then have ev2: "events st2 = events ?st1 @ [RefreshAccessToken]"
      by (auto simp: refreshAccessToken_def Let_def split: refresh_outcome.splits if_splits option.splits)
    show ?thesis
    proof (cases r)
      case (Inl m')
      with assms CallErr True r ev2 show ?thesis
        by (auto simp: send_with_retry_def provider_call_def)
    next
      case (Inr newTok)
      with assms CallErr True r ev2 show ?thesis
        by (auto simp: send_with_retry_def provider_call_def split: call_outcome.splits)
    qed
  qed
qed

lemma send_with_retry_auth_error:
  assumes key: "findUnique_accessKey (accessKeys st) u ''GMAIL_SENDER'' = Some key"
    and reply: "call_reply e (length (filter is_call (events st))) tok = CallErr c m"
    and auth: "isAuthError c m" and rt: "rt \<noteq> []"
    and res: "send_with_retry e args u rt tok st = (res, st')"
    and n: "n = length (filter (\<lambda>ev. \<not> is_call ev) (events st))"
    and k: "k = length (filter is_call (events st))"
  shows "events st' = events st @ ProviderCall tok # RefreshAccessToken #
           (if refresh_succeeds (refresh_reply e n) then [ProviderCall (refreshed_token (refresh_reply e n))] else [])
       \<and> (isError res \<longleftrightarrow> \<not> refresh_succeeds (refresh_reply e n)
                             \<or> is_failure (call_reply e (Suc k) (refreshed_token (refresh_reply e n))))"
proof -
  let ?st1 = "st\<lparr>events := events st @ [ProviderCall tok]\<rparr>"
  have n1: "length (filter (\<lambda>ev. \<not> is_call ev) (events ?st1)) = n" by (simp add: n)
  have key1: "findUnique_accessKey (accessKeys ?st1) u ''GMAIL_SENDER'' = Some key" using key by simp
  show ?thesis
  proof (cases "refresh_succeeds (refresh_reply e n)")
    case False
    then have "\<not> refresh_succeeds (refresh_reply e (length (filter (\<lambda>ev. \<not> is_call ev) (events ?st1))))"
      using n1 by simp
    from refreshAccessToken_fails[OF this, of u rt]
    obtain m' where "refreshAccessToken e u rt ?st1 = (Inl m', ?st1\<lparr>events := events ?st1 @ [RefreshAccessToken]\<rparr>)"
      by blast
    with res reply auth rt False show ?thesis
      by (auto simp: send_with_retry_def provider_call_def)
  next
    case True
    then have "refresh_succeeds (refresh_reply e (length (filter (\<lambda>ev. \<not> is_call ev) (events ?st1))))"
      using n1 by simp
    from refreshAccessToken_success[OF key1 this, of rt]
    obtain st2 where r: "refreshAccessToken e u rt ?st1 = (Inr (refreshed_token (refresh_reply e n)), st2)"
      and ev2: "events st2 = events ?st1 @ [RefreshAccessToken]"
      using n1 by auto
    have k2: "length (filter is_call (events st2)) = Suc k" by (simp add: ev2 k)
    from res reply auth rt True r ev2 k2 show ?thesis
      by (auto simp: send_with_retry_def provider_call_def split: call_outcome.splits)
  qed
qed

text \<open>
  The Gmail handler of src/routes.ts, when its first API call fails with an
  authentication error: one refresh follows, then one more API call with the new token if
  the refresh succeeded, and nothing else; the result is an error iff the refresh or the
  second call failed. \<open>pre\<close> holds what came before the first call: nothing, or the
  refresh of a stale token.
\<close>

lemma GMAIL_SENDER_retry_once:
  assumes run: "GMAIL_SENDER_handler e args userId db = (res, st')"
    and ev: "events st' = pre @ ProviderCall tok # rest"
    and pre: "\<forall>ev\<in>set pre. \<not> is_call ev"
    and reply: "call_reply e 0 tok = CallErr c m"
    and auth: "isAuthError c m"
  shows "rest = RefreshAccessToken #
           (if refresh_succeeds (refresh_reply e (length pre))
            then [ProviderCall (refreshed_token (refresh_reply e (length pre)))] else [])
       \<and> (isError res \<longleftrightarrow> \<not> refresh_succeeds (refresh_reply e (length pre))
             \<or> is_failure (call_reply e 1 (refreshed_token (refresh_reply e (length pre)))))"
proof -
  let ?st0 = "\<lparr>accessKeys = db, events = []\<rparr>"
  let ?u = "the userId"
  have nonempty: "events st' \<noteq> []" using ev by simp
  have valid: "\<not> (toMail args = [] \<or> subject args = [] \<or> body args = [] \<or> \<not> present userId)"
    using run nonempty by (auto simp: GMAIL_SENDER_handler_def Let_def split: if_splits)
  have conf: "configured e"
    using run nonempty valid by (auto simp: GMAIL_SENDER_handler_def Let_def split: if_splits)
  obtain key where key: "findUnique_accessKey db ?u ''GMAIL_SENDER'' = Some key"
    using run nonempty valid conf
    by (cases "findUnique_accessKey db ?u ''GMAIL_SENDER''") (auto simp: GMAIL_SENDER_handler_def Let_def)
  have prt: "present (refreshToken key)"
    using run nonempty valid conf key by (auto simp: GMAIL_SENDER_handler_def Let_def split: if_splits)
  let ?rt = "the (refreshToken key)"
  have rt: "?rt \<noteq> []" using prt by (cases "refreshToken key") auto
  show ?thesis
  proof (cases "shouldRefreshToken (now e) (Some (expiryDate key)) \<or> accessToken key = []")
    case False
    with run valid conf key prt
    have sw: "send_with_retry e args ?u ?rt (accessToken key) ?st0 = (res, st')"
      by (simp add: GMAIL_SENDER_handler_def Let_def)
    from send_with_retry_first[OF sw] obtain rest1 where "events st' = [] @ ProviderCall (accessToken key) # rest1"
      by auto
    with ev pre have p: "pre = []" and t: "tok = accessToken key"
      using first_call_unique[of pre tok rest "[]" "accessToken key" rest1] by auto
    have key0: "findUnique_accessKey (accessKeys ?st0) ?u ''GMAIL_SENDER'' = Some key" using key by simp
    have reply0: "call_reply e (length (filter is_call (events ?st0))) (accessToken key) = CallErr c m"
      using reply t by simp
    from send_with_retry_auth_error[OF key0 reply0 auth rt sw, of 0 0] ev p t
    show ?thesis by simp
  next
    case True
    obtain r st1 where r: "refreshAccessToken e ?u ?rt ?st0 = (r, st1)"
      by (cases "refreshAccessToken e ?u ?rt ?st0") auto
    show ?thesis
    proof (cases r)
      case (Inl err)
      with refreshAccessToken_failure[of e ?u ?rt ?st0 err st1] r
      have "events st1 = [RefreshAccessToken]" by simp
      moreover from run valid conf key prt True r Inl have "st' = st1"
        by (simp add: GMAIL_SENDER_handler_def Let_def)
      ultimately have "events st' = [RefreshAccessToken]" by simp
      with ev have "ProviderCall tok \<in> set [RefreshAccessToken]"
        by (metis in_set_conv_decomp)
      then show ?thesis by simp
    next
      case (Inr t1)
      have ok: "refresh_succeeds (refresh_reply e (length (filter (\<lambda>ev. \<not> is_call ev) (events ?st0))))"
      proof (rule ccontr)
        assume "\<not> ?thesis"
        from refreshAccessToken_fails[OF this, of ?u ?rt] r Inr show False by auto
      qed
      have key0: "findUnique_accessKey (accessKeys ?st0) ?u ''GMAIL_SENDER'' = Some key" using key by simp
      from refreshAccessToken_success[OF key0 ok, of ?rt] r Inr
      obtain key1 where ev1: "events st1 = [RefreshAccessToken]"
        and key1: "findUnique_accessKey (accessKeys st1) ?u ''GMAIL_SENDER'' = Some key1"
        by auto
      from run valid conf key prt True r Inr
      have sw: "send_with_retry e args ?u ?rt t1 st1 = (res, st')"
        by (simp add: GMAIL_SENDER_handler_def Let_def)
      from send_with_retry_first[OF sw] ev1 obtain rest1
        where "events st' = [RefreshAccessToken] @ ProviderCall t1 # rest1" by auto
      with ev pre have p: "pre = [RefreshAccessToken]" and t: "tok = t1"
        using first_call_unique[of pre tok rest "[RefreshAccessToken]" t1 rest1] by auto
      have reply1: "call_reply e (length (filter is_call (events st1))) t1 = CallErr c m"
        using reply t ev1 by simp
      from send_with_retry_auth_error[OF key1 reply1 auth rt sw, of 1 0] ev p t ev1
      show ?thesis by simp
    qed
  qed
qed

text \<open>
  The same for the Calendar handler, for the errors it takes for an expired token (code
  401, or a message with \<open>invalid_grant\<close>) when the row has a refresh token.
\<close>

lemma CALENDAR_EVENT_CREATOR_retry_once:
  assumes run: "CALENDAR_EVENT_CREATOR_handler e args userId db = (res, st')"
    and ev: "events st' = pre @ ProviderCall tok # rest"
    and pre: "\<forall>ev\<in>set pre. \<not> is_call ev"
    and reply: "call_reply e 0 tok = CallErr c m"
    and tokerr: "is_token_error c m"
    and key: "findUnique_accessKey db (the userId) ''CALENDAR_EVENT_CREATOR'' = Some key"
    and prt: "present (refreshToken key)"
  shows "pre = []
       \<and> rest = RefreshAccessToken #
           (if refresh_succeeds (refresh_reply e 0)
            then [ProviderCall (refreshed_token (refresh_reply e 0))] else [])
       \<and> (isError res \<longleftrightarrow> \<not> refresh_succeeds (refresh_reply e 0)
             \<or> is_failure (call_reply e 1 (refreshed_token (refresh_reply e 0))))"
proof -
  let ?st0 = "\<lparr>accessKeys = db, events = []\<rparr>"
  let ?u = "the userId"
  let ?t = "accessToken key"
  have nonempty: "events st' \<noteq> []" using ev by simp
  have v1: "\<not> (title args = [] \<or> startDateTime args = [] \<or> endDateTime args = [] \<or> \<not> present userId)"
    using run nonempty by (auto simp: CALENDAR_EVENT_CREATOR_handler_def Let_def split: if_splits)
  have v2: "\<not> (date_of e (startDateTime args) = None \<or> date_of e (endDateTime args) = None)"
    using run nonempty v1 by (auto simp: CALENDAR_EVENT_CREATOR_handler_def Let_def split: if_splits)
  have v3: "\<not> the (date_of e (startDateTime args)) \<ge> the (date_of e (endDateTime args))"
    using run nonempty v1 v2 by (auto simp: CALENDAR_EVENT_CREATOR_handler_def Let_def split: if_splits)
  have v4: "configured e"
    using run nonempty v1 v2 v3 by (auto simp: CALENDAR_EVENT_CREATOR_handler_def Let_def split: if_splits)
  have tk: "present (Option.bind (Some key) refreshToken)" using prt by simp
  note unfold = CALENDAR_EVENT_CREATOR_handler_def Let_def provider_call_def
  have first: "\<exists>rest1. events st' = [] @ ProviderCall ?t # rest1"
    using run v1 v2 v3 v4 key tk
    by (auto simp: unfold split: call_outcome.splits if_splits refresh_outcome.splits option.splits)
  then obtain rest1 where "events st' = [] @ ProviderCall ?t # rest1" by blast
  with ev pre have p: "pre = []" and t: "tok = ?t"
    using first_call_unique[of pre tok rest "[]" ?t rest1] by auto
  have reply0: "call_reply e 0 ?t = CallErr c m" using reply t by simp
  have te: "c = Num 401 \<or> (m \<noteq> [] \<and> str_includes m ''invalid_grant'')"
    using tokerr by (simp add: is_token_error_def)
  show ?thesis
  proof (cases "refresh_reply e 0")
    case (RefreshErr m')
    with run v1 v2 v3 v4 key tk reply0 te ev p t show ?thesis
      by (auto simp: unfold)
  next
    case (RefreshOk a nrt)
    show ?thesis
    proof (cases "present a")
      case False
      with RefreshOk run v1 v2 v3 v4 key tk reply0 te ev p t show ?thesis
        by (auto simp: unfold)
    next
      case True
      let ?f = "\<lambda>r. r\<lparr>accessToken := the a,
                       refreshToken := (if present nrt then nrt else Option.bind (Some key) refreshToken)\<rparr>"
      obtain rows where up: "update_accessKey db ?u ''CALENDAR_EVENT_CREATOR'' ?f = Some rows"
        using key update_accessKey_None[of db ?u "''CALENDAR_EVENT_CREATOR''" ?f]
        by (cases "update_accessKey db ?u ''CALENDAR_EVENT_CREATOR'' ?f") auto
      from True RefreshOk run v1 v2 v3 v4 key tk reply0 te ev p t up show ?thesis
        by (auto simp: unfold split: call_outcome.splits)
    qed
  qed
qed

lemma CALENDAR_EVENT_CREATOR_example_run:
  "CALENDAR_EVENT_CREATOR_handler env_retry_succeeds example_event (Some ''u1'') [calendar_key] =
     (ToolResult (check_mark_part_002 @ '' Calendar event created successfully after token refresh!''
                    @ newline @ ''18c2f0'') False,
      \<lparr>accessKeys = [\<lparr>ak_userId = ''u1'', ak_toolId = ''CALENDAR_EVENT_CREATOR'',
                       accessToken = ''new-token'', refreshToken = Some ''refresh-1'', expiryDate = 0\<rparr>],
       events = [ProviderCall ''old-token'', RefreshAccessToken, ProviderCall ''new-token'']\<rparr>)"
  by (simp add: env_retry_succeeds_def example_event_def calendar_key_def example_dates_def
      CALENDAR_EVENT_CREATOR_handler_def findUnique_accessKey_def provider_call_def)


text \<open>
  A rejected refresh is terminal for the call: when the first send of the Gmail handler
  of src/routes.ts fails with 401 and the provider rejects the refresh, the handler has
  made one send and one refresh and returns an error.
\<close>

lemma no_retry_when_refresh_rejected:
  "call_reply env_refresh_rejected 0 ''old-token'' = CallErr (Num 401) ''Invalid Credentials''
   \<and> isAuthError (Num 401) ''Invalid Credentials''
   \<and> GMAIL_SENDER_handler env_refresh_rejected example_mail (Some ''u1'') [example_key] =
       (ToolResult (cross_mark @ '' Authentication failed and token refresh unsuccessful: ''
                      @ ''Token refresh failed: invalid_grant'' @ ''. Please re-authenticate Gmail.'') True,
        \<lparr>accessKeys = [example_key], events = [ProviderCall ''old-token'', RefreshAccessToken]\<rparr>)"
  by (simp add: env_refresh_rejected_def example_mail_def example_key_def isAuthError_def
      GMAIL_SENDER_handler_def findUnique_accessKey_def shouldRefreshToken_def send_with_retry_def
      provider_call_def refreshAccessToken_def)

text \<open>
  The handlers that do retry. When the first API call of a run fails with what the
  handler takes for an authentication error (the Gmail handler of src/routes.ts: code 401
  or 403, or a message with invalid_client, invalid_grant, unauthorized or forbidden; the
  Calendar handler: code 401 or a message with invalid_grant, and a refresh token is
  stored), it makes exactly one refresh call after it; it repeats the API call exactly
  once, with the new token, if the refresh succeeded, and not at all if it failed; it
  makes no further call; and it returns \<open>isError: true\<close> iff the refresh or the repeated
  call failed.
\<close>

lemma retry_once_after_authentication_error:
  assumes "events st' = pre @ ProviderCall tok # rest"
    and "\<forall>ev\<in>set pre. \<not> is_call ev"
    and "call_reply e 0 tok = CallErr c m"
  shows "(GMAIL_SENDER_handler e args userId db = (res, st') \<and> isAuthError c m \<longrightarrow>
            rest = RefreshAccessToken #
              (if refresh_succeeds (refresh_reply e (length pre))
               then [ProviderCall (refreshed_token (refresh_reply e (length pre)))] else [])
          \<and> (isError res \<longleftrightarrow> \<not> refresh_succeeds (refresh_reply e (length pre))
                \<or> is_failure (call_reply e 1 (refreshed_token (refresh_reply e (length pre))))))
       \<and> (CALENDAR_EVENT_CREATOR_handler e cargs userId db = (res, st') \<and> is_token_error c m
            \<and> findUnique_accessKey db (the userId) ''CALENDAR_EVENT_CREATOR'' = Some key
            \<and> present (refreshToken key) \<longrightarrow>
            pre = []
          \<and> rest = RefreshAccessToken #
              (if refresh_succeeds (refresh_reply e 0)
               then [ProviderCall (refreshed_token (refresh_reply e 0))] else [])
          \<and> (isError res \<longleftrightarrow> \<not> refresh_succeeds (refresh_reply e 0)
                \<or> is_failure (call_reply e 1 (refreshed_token (refresh_reply e 0)))))"
proof (intro conjI impI)
  assume a: "GMAIL_SENDER_handler e args userId db = (res, st') \<and> isAuthError c m"
  then have run: "GMAIL_SENDER_handler e args userId db = (res, st')" and auth: "isAuthError c m"
    by simp_all
  from GMAIL_SENDER_retry_once[OF run assms(1) assms(2) assms(3) auth]
  show "rest = RefreshAccessToken #
              (if refresh_succeeds (refresh_reply e (length pre))
               then [ProviderCall (refreshed_token (refresh_reply e (length pre)))] else [])"
    and "isError res \<longleftrightarrow> \<not> refresh_succeeds (refresh_reply e (length pre))
                \<or> is_failure (call_reply e 1 (refreshed_token (refresh_reply e (length pre))))"
    by simp_all
next
  assume a: "CALENDAR_EVENT_CREATOR_handler e cargs userId db = (res, st') \<and> is_token_error c m
            \<and> findUnique_accessKey db (the userId) ''CALENDAR_EVENT_CREATOR'' = Some key
            \<and> present (refreshToken key)"
  then have run: "CALENDAR_EVENT_CREATOR_handler e cargs userId db = (res, st')"
    and te: "is_token_error c m"
    and key: "findUnique_accessKey db (the userId) ''CALENDAR_EVENT_CREATOR'' = Some key"
    and prt: "present (refreshToken key)"
    by simp_all
  from CALENDAR_EVENT_CREATOR_retry_once[OF run assms(1) assms(2) assms(3) te key prt]
  show "pre = []"
    and "rest = RefreshAccessToken #
              (if refresh_succeeds (refresh_reply e 0)
               then [ProviderCall (refreshed_token (refresh_reply e 0))] else [])"
    and "isError res \<longleftrightarrow> \<not> refresh_succeeds (refresh_reply e 0)
                \<or> is_failure (call_reply e 1 (refreshed_token (refresh_reply e 0)))"
    by simp_all
qed

lemma GMAIL_SENDER_example_run:
  "GMAIL_SENDER_handler env_retry_succeeds example_mail (Some ''u1'') [example_key] =
     (ToolResult (check_mark @ '' Email sent to a@example.com after token refresh. Gmail Message ID: 18c2f0'') False,
      \<lparr>accessKeys = [example_key\<lparr>accessToken := ''new-token'', expiryDate := 4600500\<rparr>],
       events = [ProviderCall ''old-token'', RefreshAccessToken, ProviderCall ''new-token'']\<rparr>)"
  by (simp add: env_retry_succeeds_def example_mail_def example_key_def isAuthError_def
      GMAIL_SENDER_handler_def findUnique_accessKey_def shouldRefreshToken_def send_with_retry_def
      provider_call_def refreshAccessToken_def)

text \<open>
  The Gmail handler of src/routes.ts under the provider that answers 403 to the stored
  token: it refreshes once and sends again once, with success.
\<close>

lemma GMAIL_SENDER_forbidden_run:
  "GMAIL_SENDER_handler env_forbidden example_mail (Some ''u1'') [example_key] =
     (ToolResult (check_mark @ '' Email sent to a@example.com after token refresh. Gmail Message ID: 18c2f0'') False,
      \<lparr>accessKeys = [example_key\<lparr>accessToken := ''new-token'', expiryDate := 4600500\<rparr>],
       events = [ProviderCall ''old-token'', RefreshAccessToken, ProviderCall ''new-token'']\<rparr>)"
  by (simp add: env_forbidden_def example_mail_def example_key_def isAuthError_def
      GMAIL_SENDER_handler_def findUnique_accessKey_def shouldRefreshToken_def send_with_retry_def
      provider_call_def refreshAccessToken_def)

text \<open>
  C2: two of the cited handlers break the claim. The Calendar handler (unnamed/part_002),
  with a refresh token stored, takes a 403 from the provider for a general error: it
  makes no refresh call and no retry, where the Gmail handler of src/routes.ts refreshes
  and retries under the same provider. The handler of src/toolsFolder/GMAIL_SENDER.ts has
  no refresh and no retry at all: a 401 from the provider ends the call after the one
  send, where the Gmail handler of src/routes.ts refreshes and retries. In both runs the
  refresh would have succeeded and the new token would have been accepted.
\<close>

theorem authentication_error_without_refresh_or_retry:
  "call_reply env_forbidden 0 ''old-token'' = CallErr (Num 403) ''forbidden''
   \<and> isAuthError (Num 403) ''forbidden''
   \<and> findUnique_accessKey [calendar_key] ''u1'' ''CALENDAR_EVENT_CREATOR'' = Some calendar_key
   \<and> refreshToken calendar_key = Some ''refresh-1''
   \<and> CALENDAR_EVENT_CREATOR_handler env_forbidden example_event (Some ''u1'') [calendar_key] =
       (ToolResult (cross_mark_part_002 @ '' Failed to create calendar event: forbidden'') True,
        \<lparr>accessKeys = [calendar_key], events = [ProviderCall ''old-token'']\<rparr>)
   \<and> call_reply env_retry_succeeds 0 ''old-token'' = CallErr (Num 401) ''Invalid Credentials''
   \<and> isAuthError (Num 401) ''Invalid Credentials''
   \<and> GMAIL_SENDER_plain_handler env_retry_succeeds example_mail (Some ''u1'') [example_key] =
       (ToolResult (cross_mark @ '' Failed to send email: Invalid Credentials'') True,
        \<lparr>accessKeys = [example_key], events = [ProviderCall ''old-token'']\<rparr>)"
  by (simp add: env_forbidden_def env_retry_succeeds_def example_event_def example_mail_def
      calendar_key_def example_key_def example_dates_def isAuthError_def
      CALENDAR_EVENT_CREATOR_handler_def GMAIL_SENDER_plain_handler_def findUnique_accessKey_def
      provider_call_def)

text \<open>
  C3, as stated, fails on the Gmail handler of src/routes.ts. For a stored credential
  whose expiry is past and that has no refresh token, the handler returns the
  re-authentication error at once. For a stored credential inside the guard window that
  has a refresh token, a call on a server without its OAuth configuration returns the
  configuration error before the credential is read. No refresh call is made in either
  run.
\<close>

theorem no_refresh_without_refresh_token:
  "expiryDate expired_key_without_refresh \<le> now env_retry_succeeds
   \<and> GMAIL_SENDER_handler env_retry_succeeds example_mail (Some ''u1'') [expired_key_without_refresh] =
       (ToolResult (cross_mark @ '' No refresh token found. Please authenticate Gmail first.'') True,
        \<lparr>accessKeys = [expired_key_without_refresh], events = []\<rparr>)
   \<and> expiryDate stale_key \<le> now (env_retry_succeeds\<lparr>configured := False\<rparr>) + 300000
   \<and> refreshToken stale_key = Some ''refresh-1''
   \<and> GMAIL_SENDER_handler (env_retry_succeeds\<lparr>configured := False\<rparr>) example_mail (Some ''u1'') [stale_key] =
       (ToolResult (cross_mark @ '' Server configuration error: Google OAuth credentials not set.'') True,
        \<lparr>accessKeys = [stale_key], events = []\<rparr>)"
  by (simp add: env_retry_succeeds_def example_mail_def expired_key_without_refresh_def stale_key_def
      GMAIL_SENDER_handler_def findUnique_accessKey_def)

text \<open>
  C3, amended. In a call of the Gmail handler of src/routes.ts that passes the handler's
  own checks (\<open>toMail\<close>, \<open>subject\<close>, \<open>body\<close> and \<open>userId\<close> are not empty and the OAuth
  configuration is set), for the stored credential of the user, when it has a refresh
  token: if its expiry is more than 5 minutes (300000 ms) after now and its access token
  is not empty, no refresh call is made and the first provider call is the API call with
  the stored access token; if its expiry is within 5 minutes of now, or past, or its
  access token is empty, exactly one refresh call is made before the API call, which is
  made with the refreshed token, and when that refresh fails no API call is made and an
  error is returned. When the stored credential has no refresh token, no call is made and
  an error is returned.
\<close>

theorem proactive_refresh_window:
  assumes "toMail args \<noteq> []" and "subject args \<noteq> []" and "body args \<noteq> []" and "u \<noteq> []"
    and "configured e"
    and "findUnique_accessKey db u ''GMAIL_SENDER'' = Some key"
    and "GMAIL_SENDER_handler e args (Some u) db = (res, st')"
  shows "(present (refreshToken key) \<and> expiryDate key > now e + 300000 \<and> accessToken key \<noteq> [] \<longrightarrow>
            (\<exists>rest. events st' = ProviderCall (accessToken key) # rest))
       \<and> (present (refreshToken key) \<and> (expiryDate key \<le> now e + 300000 \<or> accessToken key = []) \<longrightarrow>
            (if refresh_succeeds (refresh_reply e 0)
             then \<exists>rest. events st' =
                    RefreshAccessToken # ProviderCall (refreshed_token (refresh_reply e 0)) # rest
             else events st' = [RefreshAccessToken] \<and> isError res))
       \<and> (\<not> present (refreshToken key) \<longrightarrow> events st' = [] \<and> isError res)"
proof (intro conjI impI)
  let ?st0 = "\<lparr>accessKeys = db, events = []\<rparr>"
  let ?rt = "the (refreshToken key)"
  note run = assms(7)
  note valid = assms(1-6)
  {
    assume a: "present (refreshToken key) \<and> expiryDate key > now e + 300000 \<and> accessToken key \<noteq> []"
    with run valid have "send_with_retry e args u ?rt (accessToken key) ?st0 = (res, st')"
      by (simp add: GMAIL_SENDER_handler_def shouldRefreshToken_def)
    from send_with_retry_first[OF this]
    show "\<exists>rest. events st' = ProviderCall (accessToken key) # rest" by simp
  }
  {
    assume a: "present (refreshToken key) \<and> (expiryDate key \<le> now e + 300000 \<or> accessToken key = [])"
    then have stale: "shouldRefreshToken (now e) (Some (expiryDate key)) \<or> accessToken key = []"
      by (auto simp: shouldRefreshToken_def)
    have key0: "findUnique_accessKey (accessKeys ?st0) u ''GMAIL_SENDER'' = Some key"
      using valid by simp
    show "if refresh_succeeds (refresh_reply e 0)
          then \<exists>rest. events st' =
                 RefreshAccessToken # ProviderCall (refreshed_token (refresh_reply e 0)) # rest
          else events st' = [RefreshAccessToken] \<and> isError res"
    proof (cases "refresh_succeeds (refresh_reply e 0)")
      case True
      then have "refresh_succeeds (refresh_reply e (length (filter (\<lambda>ev. \<not> is_call ev) (events ?st0))))"
        by simp
      from refreshAccessToken_success[OF key0 this, of ?rt]
      obtain st1 where r: "refreshAccessToken e u ?rt ?st0 = (Inr (refreshed_token (refresh_reply e 0)), st1)"
        and ev1: "events st1 = [RefreshAccessToken]"
        by auto
      from run valid a stale r
      have "send_with_retry e args u ?rt (refreshed_token (refresh_reply e 0)) st1 = (res, st')"
        by (simp add: GMAIL_SENDER_handler_def)
      from send_with_retry_first[OF this] ev1 True show ?thesis by simp
    next
      case False
      then have "\<not> refresh_succeeds (refresh_reply e (length (filter (\<lambda>ev. \<not> is_call ev) (events ?st0))))"
        by simp
      from refreshAccessToken_fails[OF this, of u ?rt]
      obtain m where "refreshAccessToken e u ?rt ?st0 = (Inl m, ?st0\<lparr>events := events ?st0 @ [RefreshAccessToken]\<rparr>)"
        by blast
      with run valid a stale False show ?thesis
        by (auto simp: GMAIL_SENDER_handler_def)
    qed
  }
  {
    assume "\<not> present (refreshToken key)"
    with run valid show "events st' = []" and "isError res"
      by (auto simp: GMAIL_SENDER_handler_def)
  }
qed

lemma GMAIL_SENDER_fresh_run:
  "GMAIL_SENDER_handler (env_retry_succeeds\<lparr>call_reply := (\<lambda>n tok. CallOk ''18c2f0'')\<rparr>)
       example_mail (Some ''u1'') [example_key] =
     (ToolResult (check_mark @ '' Email sent to a@example.com. Gmail Message ID: 18c2f0'') False,
      \<lparr>accessKeys = [example_key], events = [ProviderCall ''old-token'']\<rparr>)"
  by (simp add: env_retry_succeeds_def example_mail_def example_key_def
      GMAIL_SENDER_handler_def findUnique_accessKey_def shouldRefreshToken_def send_with_retry_def
      provider_call_def)

lemma GMAIL_SENDER_stale_run:
  "GMAIL_SENDER_handler env_retry_succeeds example_mail (Some ''u1'') [stale_key] =
     (ToolResult (check_mark @ '' Email sent to a@example.com. Gmail Message ID: 18c2f0'') False,
      \<lparr>accessKeys = [stale_key\<lparr>accessToken := ''new-token'', expiryDate := 4600500\<rparr>],
       events = [RefreshAccessToken, ProviderCall ''new-token'']\<rparr>)"
  by (simp add: env_retry_succeeds_def example_mail_def stale_key_def
      GMAIL_SENDER_handler_def findUnique_accessKey_def shouldRefreshToken_def send_with_retry_def
      provider_call_def refreshAccessToken_def)

theorem proactive_refresh_window_witness:
  "toMail example_mail \<noteq> [] \<and> subject example_mail \<noteq> [] \<and> body example_mail \<noteq> [] \<and> ''u1'' \<noteq> []
   \<and> configured (env_retry_succeeds\<lparr>call_reply := (\<lambda>n tok. CallOk ''18c2f0'')\<rparr>)
   \<and> findUnique_accessKey [example_key] ''u1'' ''GMAIL_SENDER'' = Some example_key
   \<and> present (refreshToken example_key)
   \<and> expiryDate example_key > now (env_retry_succeeds\<lparr>call_reply := (\<lambda>n tok. CallOk ''18c2f0'')\<rparr>) + 300000
   \<and> accessToken example_key = ''old-token''
   \<and> GMAIL_SENDER_handler (env_retry_succeeds\<lparr>call_reply := (\<lambda>n tok. CallOk ''18c2f0'')\<rparr>)
       example_mail (Some ''u1'') [example_key] =
     (ToolResult (check_mark @ '' Email sent to a@example.com. Gmail Message ID: 18c2f0'') False,
      \<lparr>accessKeys = [example_key], events = [ProviderCall ''old-token'']\<rparr>)
   \<and> (\<exists>rest. [ProviderCall ''old-token''] = ProviderCall (accessToken example_key) # rest)
   \<and> configured env_retry_succeeds
   \<and> findUnique_accessKey [stale_key] ''u1'' ''GMAIL_SENDER'' = Some stale_key
   \<and> present (refreshToken stale_key)
   \<and> expiryDate stale_key \<le> now env_retry_succeeds + 300000
   \<and> refresh_succeeds (refresh_reply env_retry_succeeds 0)
   \<and> refreshed_token (refresh_reply env_retry_succeeds 0) = ''new-token''
   \<and> GMAIL_SENDER_handler env_retry_succeeds example_mail (Some ''u1'') [stale_key] =
     (ToolResult (check_mark @ '' Email sent to a@example.com. Gmail Message ID: 18c2f0'') False,
      \<lparr>accessKeys = [stale_key\<lparr>accessToken := ''new-token'', expiryDate := 4600500\<rparr>],
       events = [RefreshAccessToken, ProviderCall ''new-token'']\<rparr>)
   \<and> (\<exists>rest. [RefreshAccessToken, ProviderCall ''new-token''] =
          RefreshAccessToken # ProviderCall (refreshed_token (refresh_reply env_retry_succeeds 0)) # rest)"
proof -
  let ?e = "env_retry_succeeds\<lparr>call_reply := (\<lambda>n tok. CallOk ''18c2f0'')\<rparr>"
  have a: "toMail example_mail \<noteq> []" and b: "subject example_mail \<noteq> []" and c: "body example_mail \<noteq> []"
    by (simp_all add: example_mail_def)
  have d: "''u1'' \<noteq> []" by simp
  have f: "configured ?e" and f': "configured env_retry_succeeds" by (simp_all add: env_retry_succeeds_def)
  have k: "findUnique_accessKey [example_key] ''u1'' ''GMAIL_SENDER'' = Some example_key"
    by (simp add: findUnique_accessKey_def example_key_def)
  have p: "present (refreshToken example_key)"
    and x: "expiryDate example_key > now ?e + 300000"
    and t: "accessToken example_key = ''old-token''"
    by (simp_all add: example_key_def env_retry_succeeds_def)
  have ne: "accessToken example_key \<noteq> []" by (simp add: example_key_def)
  from proactive_refresh_window[OF a b c d f k GMAIL_SENDER_fresh_run] p x ne
  have "\<exists>rest. events \<lparr>accessKeys = [example_key], events = [ProviderCall ''old-token'']\<rparr> =
          ProviderCall (accessToken example_key) # rest"
    by blast
  then have fresh: "\<exists>rest. [ProviderCall ''old-token''] = ProviderCall (accessToken example_key) # rest"
    by simp
  have k': "findUnique_accessKey [stale_key] ''u1'' ''GMAIL_SENDER'' = Some stale_key"
    by (simp add: findUnique_accessKey_def stale_key_def)
  have p': "present (refreshToken stale_key)"
    and x': "expiryDate stale_key \<le> now env_retry_succeeds + 300000"
    by (simp_all add: stale_key_def env_retry_succeeds_def)
  have ok: "refresh_succeeds (refresh_reply env_retry_succeeds 0)"
    and nt: "refreshed_token (refresh_reply env_retry_succeeds 0) = ''new-token''"
    by (simp_all add: env_retry_succeeds_def)
  from proactive_refresh_window[OF a b c d f' k' GMAIL_SENDER_stale_run] p' x'
  have "if refresh_succeeds (refresh_reply env_retry_succeeds 0)
        then \<exists>rest. events \<lparr>accessKeys = [stale_key\<lparr>accessToken := ''new-token'', expiryDate := 4600500\<rparr>],
                              events = [RefreshAccessToken, ProviderCall ''new-token'']\<rparr> =
               RefreshAccessToken # ProviderCall (refreshed_token (refresh_reply env_retry_succeeds 0)) # rest
        else events \<lparr>accessKeys = [stale_key\<lparr>accessToken := ''new-token'', expiryDate := 4600500\<rparr>],
                      events = [RefreshAccessToken, ProviderCall ''new-token'']\<rparr> = [RefreshAccessToken]
             \<and> isError (ToolResult (check_mark @ '' Email sent to a@example.com. Gmail Message ID: 18c2f0'') False)"
    by blast
  with ok have stale: "\<exists>rest. [RefreshAccessToken, ProviderCall ''new-token''] =
          RefreshAccessToken # ProviderCall (refreshed_token (refresh_reply env_retry_succeeds 0)) # rest"
    by simp
  from a b c d f k p x t GMAIL_SENDER_fresh_run fresh f' k' p' x' ok nt GMAIL_SENDER_stale_run stale
  show ?thesis by blast
qed

text \<open>
  The Calendar handler never writes \<open>expiryDate\<close>: after any run every row has the
  expiry it had before.
\<close>

lemma update_accessKey_expiryDate:
  assumes "\<And>r. expiryDate (f r) = expiryDate r" and "update_accessKey rows u t f = Some rows'"
  shows "map expiryDate rows' = map expiryDate rows"
  using assms(2)
proof (induction rows arbitrary: rows')
  case Nil
  then show ?case by simp
next
  case (Cons r rs)
  then show ?case by (auto simp: assms(1) split: if_splits)
qed

lemma CALENDAR_EVENT_CREATOR_keeps_expiryDate:
  "map expiryDate (accessKeys (snd (CALENDAR_EVENT_CREATOR_handler e args userId db))) = map expiryDate db"
proof (cases "refresh_reply e 0")
  case (RefreshErr m)
  then show ?thesis
    by (simp add: CALENDAR_EVENT_CREATOR_handler_def Let_def provider_call_def
        split: call_outcome.splits)
next
  case (RefreshOk a nrt)
  let ?f = "\<lambda>r. r\<lparr>accessToken := the a,
                   refreshToken := (if present nrt then nrt
                     else Option.bind (findUnique_accessKey db (the userId) ''CALENDAR_EVENT_CREATOR'') refreshToken)\<rparr>"
  show ?thesis
  proof (cases "update_accessKey db (the userId) ''CALENDAR_EVENT_CREATOR'' ?f")
    case None
    with RefreshOk show ?thesis
      by (simp add: CALENDAR_EVENT_CREATOR_handler_def Let_def provider_call_def
          split: call_outcome.splits)
  next
    case (Some rows)
    have "map expiryDate rows = map expiryDate db"
      using update_accessKey_expiryDate[OF _ Some] by simp
    with RefreshOk Some show ?thesis
      by (simp add: CALENDAR_EVENT_CREATOR_handler_def Let_def provider_call_def
          split: call_outcome.splits)
  qed
qed


text \<open>
  C6: the Calendar handler breaks the claim. The stored token (expiry 0) is rejected with
  401, the refresh succeeds and the retry succeeds; the row then holds the new access
  token and the old refresh token, and its \<open>expiryDate\<close> is still 0, although the clock
  reads 1000000. The same refresh in \<open>refreshAccessToken\<close> of src/routes.ts sets the expiry
  to one hour after the refresh.
\<close>

theorem calendar_refresh_keeps_stale_expiry:
  "expiryDate calendar_key = 0
   \<and> now env_retry_succeeds = 1000000
   \<and> refresh_reply env_retry_succeeds 0 = RefreshOk (Some ''new-token'') None
   \<and> fst (CALENDAR_EVENT_CREATOR_handler env_retry_succeeds example_event (Some ''u1'') [calendar_key]) =
       ToolResult (check_mark_part_002 @ '' Calendar event created successfully after token refresh!''
                     @ newline @ ''18c2f0'') False
   \<and> accessKeys (snd (CALENDAR_EVENT_CREATOR_handler env_retry_succeeds example_event (Some ''u1'')
                        [calendar_key])) =
       [\<lparr>ak_userId = ''u1'', ak_toolId = ''CALENDAR_EVENT_CREATOR'',
         accessToken = ''new-token'', refreshToken = Some ''refresh-1'', expiryDate = 0\<rparr>]"
  by (simp add: CALENDAR_EVENT_CREATOR_example_run) (simp add: calendar_key_def env_retry_succeeds_def)

end
